theory Spec2Isabelle
  imports Main "HOL-Library.Mapping" "HOL-Library.AList_Mapping"
begin

section \<open>Errors\<close>

text \<open>
  A Go \<open>error\<close> value is modelled by what the controller reads of it: whether the API
  machinery classifies it as not-found (\<open>apierrors.IsNotFound\<close>), and its text
  (\<open>err.Error()\<close>). \<open>fmt.Errorf("...: %w", err)\<close> keeps the classification of the
  wrapped error and prefixes its text; \<open>fmt.Errorf\<close> without \<open>%w\<close> makes an
  unclassified error.
\<close>

datatype err_kind = NotFound | AlreadyExists | AlreadyOwned | Other

datatype error = Error err_kind string

fun IsNotFound :: "error \<Rightarrow> bool" where
  "IsNotFound (Error k m) = (k = NotFound)"

fun Error_text :: "error \<Rightarrow> string" where
  "Error_text (Error k m) = m"

fun Errorf_w :: "string \<Rightarrow> error \<Rightarrow> error" where
  "Errorf_w prefix (Error k m) = Error k (prefix @ '': '' @ m)"

definition Errorf :: "string \<Rightarrow> error" where
  "Errorf m = Error Other m"

definition quoted :: "string \<Rightarrow> string" where
  "quoted s = [CHR 0x22] @ s @ [CHR 0x22]"


section \<open>Data model\<close>

subsection \<open>Object metadata\<close>

record owner_reference =
  or_apiVersion :: string
  or_kind :: string
  or_name :: string
  or_uid :: string
  or_controller :: bool
  or_blockOwnerDeletion :: bool

text \<open>
  \<open>metav1.ObjectMeta\<close>, with the fields the controller reads or writes. A timestamp is
  a natural number, \<open>0\<close> being Go's zero time; a nil \<open>*metav1.Time\<close> is \<open>None\<close>.
\<close>

record object_meta =
  om_name :: string
  om_namespace :: string
  om_uid :: string
  om_generation :: int
  om_labels :: "(string, string) mapping"
  om_annotations :: "(string, string) mapping"
  om_ownerReferences :: "owner_reference list"
  om_finalizers :: "string list"
  om_deletionTimestamp :: "nat option"

definition empty_meta :: object_meta where
  "empty_meta = \<lparr>om_name = [], om_namespace = [], om_uid = [], om_generation = 0,
     om_labels = Mapping.empty, om_annotations = Mapping.empty, om_ownerReferences = [],
     om_finalizers = [], om_deletionTimestamp = None\<rparr>"

definition IsZero :: "nat option \<Rightarrow> bool" where
  "IsZero t = (case t of None \<Rightarrow> True | Some n \<Rightarrow> n = 0)"

subsection \<open>The CertificateSet resource (api/v1alpha1)\<close>

record issuer_reference =
  ir_apiVersion :: string
  ir_kind :: string
  ir_name :: string

record certificate_set_spec =
  argocdCluster :: bool
  environment :: string
  kubeconfig :: bool
  issuerRef :: issuer_reference
  issuerRefOidc :: "issuer_reference option"
  kubeconfigEndpoint :: string

definition EnvironmentClient :: string where "EnvironmentClient = ''client''"
definition EnvironmentSystem :: string where "EnvironmentSystem = ''system''"
definition EnvironmentInfra :: string where "EnvironmentInfra = ''infra''"

datatype condition_status = ConditionTrue | ConditionFalse | ConditionUnknown

record condition =
  c_type :: string
  c_status :: condition_status
  c_observedGeneration :: int
  c_lastTransitionTime :: nat
  c_reason :: string
  c_message :: string

record certificate_set =
  cs_meta :: object_meta
  cs_spec :: certificate_set_spec
  cs_conditions :: "condition list"

subsection \<open>cert-manager and core resources\<close>

record object_reference =
  ref_group :: string
  ref_kind :: string
  ref_name :: string

definition no_reference :: object_reference where
  "no_reference = \<lparr>ref_group = [], ref_kind = [], ref_name = []\<rparr>"

datatype key_algorithm = RSAKeyAlgorithm
datatype rotation_policy = RotationPolicyNever | RotationPolicyAlways
datatype key_usage =
  UsageCertSign | UsageKeyEncipherment | UsageDigitalSignature
  | UsageClientAuth | UsageDataEncipherment

record certificate_private_key =
  pk_algorithm :: key_algorithm
  pk_rotationPolicy :: rotation_policy
  pk_size :: int

text \<open>Durations are \<open>time.Duration\<close> values: nanoseconds.\<close>

record certificate_spec =
  sp_commonName :: string
  sp_duration :: "int option"
  sp_isCA :: bool
  sp_issuerRef :: object_reference
  sp_privateKey :: "certificate_private_key option"
  sp_renewBefore :: "int option"
  sp_secretName :: string
  sp_secretTemplateLabels :: "(string, string) mapping option"
  sp_subjectOrganizations :: "string list option"
  sp_usages :: "key_usage list"

text \<open>A condition of a cert-manager resource: its type and its status.\<close>

record cm_condition =
  cm_type :: string
  cm_status :: condition_status

record certificate =
  cert_meta :: object_meta
  cert_spec :: certificate_spec
  cert_conditions :: "cm_condition list"

record issuer =
  iss_meta :: object_meta
  iss_caSecretName :: "string option"
  iss_conditions :: "cm_condition list"

record secret =
  sec_meta :: object_meta
  sec_type :: string
  sec_data :: "(string, string) mapping"


section \<open>Names (names.go)\<close>

definition suffixCA :: string where "suffixCA = ''-ca''"
definition suffixSuperAdmin :: string where "suffixSuperAdmin = ''-super-admin''"
definition suffixETCD :: string where "suffixETCD = ''-etcd''"
definition suffixProxy :: string where "suffixProxy = ''-proxy''"
definition suffixCAOIDC :: string where "suffixCAOIDC = ''-ca-oidc''"
definition suffixKubeconfig :: string where "suffixKubeconfig = ''-kubeconfig''"
definition suffixArgoCDCluster :: string where "suffixArgoCDCluster = ''-argocd-cluster''"

definition CAName :: "certificate_set \<Rightarrow> string" where
  "CAName cs = om_name (cs_meta cs) @ suffixCA"

definition SuperAdminName :: "certificate_set \<Rightarrow> string" where
  "SuperAdminName cs = om_name (cs_meta cs) @ suffixSuperAdmin"

definition ETCDName :: "certificate_set \<Rightarrow> string" where
  "ETCDName cs = om_name (cs_meta cs) @ suffixETCD"

definition ProxyName :: "certificate_set \<Rightarrow> string" where
  "ProxyName cs = om_name (cs_meta cs) @ suffixProxy"

definition CAOIDCName :: "certificate_set \<Rightarrow> string" where
  "CAOIDCName cs = om_name (cs_meta cs) @ suffixCAOIDC"

definition KubeconfigName :: "certificate_set \<Rightarrow> string" where
  "KubeconfigName cs = om_name (cs_meta cs) @ suffixKubeconfig"

definition ArgoCDClusterName :: "certificate_set \<Rightarrow> string" where
  "ArgoCDClusterName cs = om_name (cs_meta cs) @ suffixArgoCDCluster"

definition isSystemOrInfra :: "string \<Rightarrow> bool" where
  "isSystemOrInfra env = (env = EnvironmentSystem \<or> env = EnvironmentInfra)"

definition AllCertificateNames :: "certificate_set \<Rightarrow> string list" where
  "AllCertificateNames cs =
     (let names = [CAName cs];
          names = (if isSystemOrInfra (environment (cs_spec cs))
                   then names @ [ETCDName cs, ProxyName cs, CAOIDCName cs] else names);
          names = (if kubeconfig (cs_spec cs) \<or> argocdCluster (cs_spec cs)
                   then names @ [SuperAdminName cs] else names)
      in names)"


section \<open>Resource builders\<close>

definition Hour :: int where "Hour = 3600000000000"
definition Second :: int where "Second = 1000000000"

definition CertDuration20Years :: int where "CertDuration20Years = 175200 * Hour"
definition CertDuration1Year :: int where "CertDuration1Year = 8760 * Hour"
definition CertRenewBefore30Days :: int where "CertRenewBefore30Days = 720 * Hour"

definition copyAnnotationsForChildResource :: "(string, string) mapping \<Rightarrow> (string, string) mapping" where
  "copyAnnotationsForChildResource source =
     Mapping.delete ''kubectl.kubernetes.io/last-applied-configuration'' source"

definition buildObjectMeta :: "certificate_set \<Rightarrow> string \<Rightarrow> object_meta" where
  "buildObjectMeta cs name =
     empty_meta\<lparr>om_name := name, om_namespace := om_namespace (cs_meta cs),
       om_labels := om_labels (cs_meta cs),
       om_annotations := copyAnnotationsForChildResource (om_annotations (cs_meta cs))\<rparr>"

definition defaultCAPrivateKey :: certificate_private_key where
  "defaultCAPrivateKey =
     \<lparr>pk_algorithm = RSAKeyAlgorithm, pk_rotationPolicy = RotationPolicyNever, pk_size = 2048\<rparr>"

definition caUsages :: "key_usage list" where
  "caUsages = [UsageCertSign, UsageKeyEncipherment, UsageDigitalSignature]"

text \<open>
  \<open>schema.ParseGroupVersion\<close> of apimachinery, reduced to the group it returns. The
  builders drop its error, so a string with more than one slash gives the empty group of
  the zero value.
\<close>

definition ParseGroupVersion_Group :: "string \<Rightarrow> string" where
  "ParseGroupVersion_Group gv =
     (if gv = [] \<or> gv = ''/'' then []
      else if count_list gv (CHR ''/'') = 1 then takeWhile (\<lambda>c. c \<noteq> CHR ''/'') gv
      else [])"

definition issuerObjectReference :: "issuer_reference \<Rightarrow> object_reference" where
  "issuerObjectReference r =
     \<lparr>ref_group = ParseGroupVersion_Group (ir_apiVersion r), ref_kind = ir_kind r,
      ref_name = ir_name r\<rparr>"

definition buildCACertificateWithName :: "certificate_set \<Rightarrow> string \<Rightarrow> certificate" where
  "buildCACertificateWithName cs name =
     \<lparr>cert_meta = buildObjectMeta cs name,
      cert_spec = \<lparr>sp_commonName = name,
        sp_duration = Some CertDuration20Years,
        sp_isCA = True,
        sp_issuerRef = issuerObjectReference (issuerRef (cs_spec cs)),
        sp_privateKey = Some defaultCAPrivateKey,
        sp_renewBefore = Some CertRenewBefore30Days,
        sp_secretName = name,
        sp_secretTemplateLabels = Some (om_labels (cs_meta cs)),
        sp_subjectOrganizations = None,
        sp_usages = caUsages\<rparr>,
      cert_conditions = []\<rparr>"

definition buildCACertificate :: "certificate_set \<Rightarrow> certificate" where
  "buildCACertificate cs = buildCACertificateWithName cs (CAName cs)"

definition buildETCDCertificate :: "certificate_set \<Rightarrow> certificate" where
  "buildETCDCertificate cs = buildCACertificateWithName cs (ETCDName cs)"

definition buildProxyCertificate :: "certificate_set \<Rightarrow> certificate" where
  "buildProxyCertificate cs = buildCACertificateWithName cs (ProxyName cs)"

definition buildIssuer :: "certificate_set \<Rightarrow> issuer" where
  "buildIssuer cs =
     (let name = CAName cs
      in \<lparr>iss_meta = buildObjectMeta cs name, iss_caSecretName = Some name,
          iss_conditions = []\<rparr>)"

definition buildSuperAdminCertificate :: "certificate_set \<Rightarrow> string \<Rightarrow> certificate" where
  "buildSuperAdminCertificate cs issuerName =
     (let name = SuperAdminName cs
      in \<lparr>cert_meta = buildObjectMeta cs name,
          cert_spec = \<lparr>sp_commonName = name,
            sp_duration = Some CertDuration1Year,
            sp_isCA = False,
            sp_issuerRef = \<lparr>ref_group = ''cert-manager.io'', ref_kind = ''Issuer'',
              ref_name = issuerName\<rparr>,
            sp_privateKey = Some \<lparr>pk_algorithm = RSAKeyAlgorithm,
              pk_rotationPolicy = RotationPolicyAlways, pk_size = 2048\<rparr>,
            sp_renewBefore = Some CertRenewBefore30Days,
            sp_secretName = name,
            sp_secretTemplateLabels = Some (om_labels (cs_meta cs)),
            sp_subjectOrganizations = Some [''system:masters''],
            sp_usages = [UsageClientAuth, UsageDataEncipherment, UsageKeyEncipherment]\<rparr>,
          cert_conditions = []\<rparr>)"

text \<open>
  \<open>buildOIDCCertificate\<close> first builds the certificate without \<open>IsCA\<close>, issuer
  reference and usages (their zero values), then fills them in by environment.
\<close>

definition buildOIDCCertificate :: "certificate_set \<Rightarrow> certificate" where
  "buildOIDCCertificate cs =
     (let name = CAOIDCName cs;
          cert = \<lparr>cert_meta = buildObjectMeta cs name,
            cert_spec = \<lparr>sp_commonName = name,
              sp_duration = Some CertDuration20Years,
              sp_isCA = False,
              sp_issuerRef = no_reference,
              sp_privateKey = Some defaultCAPrivateKey,
              sp_renewBefore = Some CertRenewBefore30Days,
              sp_secretName = name,
              sp_secretTemplateLabels = Some (om_labels (cs_meta cs)),
              sp_subjectOrganizations = None,
              sp_usages = []\<rparr>,
            cert_conditions = []\<rparr>
      in if environment (cs_spec cs) = EnvironmentSystem
         then cert\<lparr>cert_spec := (cert_spec cert)\<lparr>sp_isCA := True,
                sp_issuerRef := issuerObjectReference (issuerRef (cs_spec cs)),
                sp_usages := caUsages\<rparr>\<rparr>
         else if environment (cs_spec cs) = EnvironmentInfra
         then (case issuerRefOidc (cs_spec cs) of
                 Some oidc \<Rightarrow> cert\<lparr>cert_spec := (cert_spec cert)\<lparr>sp_isCA := False,
                                sp_issuerRef := issuerObjectReference oidc\<rparr>\<rparr>
               | None \<Rightarrow> cert)
         else cert)"


section \<open>Status conditions\<close>

definition ConditionTypeReady :: string where "ConditionTypeReady = ''Ready''"
definition ConditionTypeProgressing :: string where "ConditionTypeProgressing = ''Progressing''"
definition ConditionTypeDegraded :: string where "ConditionTypeDegraded = ''Degraded''"

text \<open>
  \<open>meta.FindStatusCondition\<close> returns the first condition of the type;
  \<open>meta.SetStatusCondition\<close> appends a condition of a new type and otherwise rewrites
  the first of that type in place, field by field. Its clock reading is the argument
  \<open>now\<close>.
\<close>

definition FindStatusCondition :: "condition list \<Rightarrow> string \<Rightarrow> condition option" where
  "FindStatusCondition conditions t = find (\<lambda>c. c_type c = t) conditions"

fun update_first :: "('a \<Rightarrow> bool) \<Rightarrow> ('a \<Rightarrow> 'a) \<Rightarrow> 'a list \<Rightarrow> 'a list" where
  "update_first p f [] = []"
| "update_first p f (x # xs) = (if p x then f x # xs else x # update_first p f xs)"

definition merge_condition :: "nat \<Rightarrow> condition \<Rightarrow> condition \<Rightarrow> condition" where
  "merge_condition now new existing =
     (let e = (if c_status existing \<noteq> c_status new
               then existing\<lparr>c_status := c_status new,
                      c_lastTransitionTime :=
                        (if c_lastTransitionTime new \<noteq> 0 then c_lastTransitionTime new else now)\<rparr>
               else existing)
      in e\<lparr>c_reason := c_reason new, c_message := c_message new,
           c_observedGeneration := c_observedGeneration new\<rparr>)"

definition SetStatusCondition :: "nat \<Rightarrow> condition list \<Rightarrow> condition \<Rightarrow> condition list" where
  "SetStatusCondition now conditions new =
     (case FindStatusCondition conditions (c_type new) of
        None \<Rightarrow>
          conditions @ [if c_lastTransitionTime new = 0
                        then new\<lparr>c_lastTransitionTime := now\<rparr> else new]
      | Some existing \<Rightarrow>
          update_first (\<lambda>c. c_type c = c_type new) (merge_condition now new) conditions)"

text \<open>
  A condition of the type is recorded with this status, reason and message and stamped
  with the object's generation.
\<close>

abbreviation stamped :: "certificate_set \<Rightarrow> string \<Rightarrow> condition_status \<Rightarrow> string \<Rightarrow> string \<Rightarrow> bool" where
  "stamped cs t s r m \<equiv>
     (\<exists>c. FindStatusCondition (cs_conditions cs) t = Some c \<and> c_status c = s \<and> c_reason c = r
        \<and> c_message c = m \<and> c_observedGeneration c = om_generation (cs_meta cs))"

text \<open>
  \<open>setCondition\<close> (certificateset\_helpers.go) works on the object in memory only: it
  takes no client, so the model gives it no world. It returns whether it changed the
  object, and the object.
\<close>

definition setCondition ::
  "nat \<Rightarrow> certificate_set \<Rightarrow> string \<Rightarrow> condition_status \<Rightarrow> string \<Rightarrow> string
    \<Rightarrow> bool \<times> certificate_set" where
  "setCondition now cs condType status reason message =
     (case FindStatusCondition (cs_conditions cs) condType of
        Some existing \<Rightarrow>
          if c_status existing = status \<and> c_reason existing = reason
             \<and> c_message existing = message
             \<and> c_observedGeneration existing = om_generation (cs_meta cs)
          then (False, cs)
          else (True, cs\<lparr>cs_conditions := SetStatusCondition now (cs_conditions cs)
                  \<lparr>c_type = condType, c_status = status,
                   c_observedGeneration = om_generation (cs_meta cs),
                   c_lastTransitionTime = 0, c_reason = reason, c_message = message\<rparr>\<rparr>)
      | None \<Rightarrow>
          (True, cs\<lparr>cs_conditions := SetStatusCondition now (cs_conditions cs)
                  \<lparr>c_type = condType, c_status = status,
                   c_observedGeneration = om_generation (cs_meta cs),
                   c_lastTransitionTime = 0, c_reason = reason, c_message = message\<rparr>\<rparr>))"


section \<open>The resource store\<close>

text \<open>
  The cluster as one reconciliation attempt sees it: the stored objects, found by their
  own namespace and name, the existing namespaces, the clock, and the transport failures
  still to come.
  Every client call takes the next entry of \<open>faults\<close> (none left: no failure); an
  entry \<open>Some m\<close> makes the call fail with an error of text \<open>m\<close> that is not a
  not-found error, before it reads or writes anything. Not-found and already-exists
  arise from the store itself. \<open>calls\<close> records the client calls in order; no
  operation reads it. The cached client and the \<open>APIReader\<close> read the same store.
\<close>

datatype verb = Get | Create | Update | Delete | PatchStatus

datatype resource_kind = KCertificateSet | KCertificate | KIssuer | KSecret | KNamespace

type_synonym key = "string \<times> string"

datatype api_call = Call verb resource_kind key

record world =
  certificateSets :: "certificate_set list"
  certificates :: "certificate list"
  issuers :: "issuer list"
  secrets :: "secret list"
  namespaces :: "string set"
  clock :: nat
  faults :: "string option list"
  calls :: "api_call list"

definition meta_key :: "object_meta \<Rightarrow> key" where
  "meta_key m = (om_namespace m, om_name m)"

definition lookup :: "('a \<Rightarrow> object_meta) \<Rightarrow> 'a list \<Rightarrow> key \<Rightarrow> 'a option" where
  "lookup meta_of objs key = find (\<lambda>obj. meta_key (meta_of obj) = key) objs"

definition replace :: "('a \<Rightarrow> object_meta) \<Rightarrow> 'a \<Rightarrow> 'a list \<Rightarrow> 'a list" where
  "replace meta_of obj objs =
     update_first (\<lambda>old. meta_key (meta_of old) = meta_key (meta_of obj)) (\<lambda>old. obj) objs"

definition remove :: "('a \<Rightarrow> object_meta) \<Rightarrow> key \<Rightarrow> 'a list \<Rightarrow> 'a list" where
  "remove meta_of key objs = filter (\<lambda>obj. meta_key (meta_of obj) \<noteq> key) objs"

abbreviation certificateSetAt :: "world \<Rightarrow> key \<Rightarrow> certificate_set option" where
  "certificateSetAt w \<equiv> lookup cs_meta (certificateSets w)"

abbreviation certificateAt :: "world \<Rightarrow> key \<Rightarrow> certificate option" where
  "certificateAt w \<equiv> lookup cert_meta (certificates w)"

abbreviation issuerAt :: "world \<Rightarrow> key \<Rightarrow> issuer option" where
  "issuerAt w \<equiv> lookup iss_meta (issuers w)"

abbreviation secretAt :: "world \<Rightarrow> key \<Rightarrow> secret option" where
  "secretAt w \<equiv> lookup sec_meta (secrets w)"

definition next_fault :: "world \<Rightarrow> error option" where
  "next_fault w = (case faults w of [] \<Rightarrow> None | f # fs \<Rightarrow> map_option (Error Other) f)"

definition request :: "verb \<Rightarrow> resource_kind \<Rightarrow> key \<Rightarrow> world \<Rightarrow> error option \<times> world" where
  "request v k key w =
     (next_fault w, w\<lparr>faults := drop 1 (faults w), calls := calls w @ [Call v k key]\<rparr>)"

text \<open>The status writes among the recorded calls.\<close>

fun is_status_write :: "api_call \<Rightarrow> bool" where
  "is_status_write (Call v k key) = (v = PatchStatus)"

definition status_writes :: "world \<Rightarrow> api_call list" where
  "status_writes w = filter is_status_write (calls w)"

definition kind_text :: "resource_kind \<Rightarrow> string" where
  "kind_text k = (case k of KCertificateSet \<Rightarrow> ''certificatesets.in-cloud.io''
     | KCertificate \<Rightarrow> ''certificates.cert-manager.io'' | KIssuer \<Rightarrow> ''issuers.cert-manager.io''
     | KSecret \<Rightarrow> ''secrets'' | KNamespace \<Rightarrow> ''namespaces'')"

definition NewNotFound :: "resource_kind \<Rightarrow> key \<Rightarrow> error" where
  "NewNotFound k key = Error NotFound (kind_text k @ '' '' @ quoted (snd key) @ '' not found'')"

definition NewAlreadyExists :: "resource_kind \<Rightarrow> key \<Rightarrow> error" where
  "NewAlreadyExists k key =
     Error AlreadyExists (kind_text k @ '' '' @ quoted (snd key) @ '' already exists'')"

definition api_get ::
  "resource_kind \<Rightarrow> (world \<Rightarrow> key \<rightharpoonup> 'a) \<Rightarrow> key \<Rightarrow> world \<Rightarrow> (error + 'a) \<times> world" where
  "api_get k store key w =
     (case request Get k key w of
        (Some err, w1) \<Rightarrow> (Inl err, w1)
      | (None, w1) \<Rightarrow>
          (case store w1 key of
             None \<Rightarrow> (Inl (NewNotFound k key), w1)
           | Some obj \<Rightarrow> (Inr obj, w1)))"

definition getCertificateSet :: "key \<Rightarrow> world \<Rightarrow> (error + certificate_set) \<times> world" where
  "getCertificateSet = api_get KCertificateSet certificateSetAt"

definition getCertificate :: "key \<Rightarrow> world \<Rightarrow> (error + certificate) \<times> world" where
  "getCertificate = api_get KCertificate certificateAt"

definition getIssuer :: "key \<Rightarrow> world \<Rightarrow> (error + issuer) \<times> world" where
  "getIssuer = api_get KIssuer issuerAt"

definition getSecret :: "key \<Rightarrow> world \<Rightarrow> (error + secret) \<times> world" where
  "getSecret = api_get KSecret secretAt"

definition getNamespace :: "string \<Rightarrow> world \<Rightarrow> error option \<times> world" where
  "getNamespace name w =
     (case request Get KNamespace ([], name) w of
        (Some err, w1) \<Rightarrow> (Some err, w1)
      | (None, w1) \<Rightarrow>
          (if name \<in> namespaces w1 then (None, w1)
           else (Some (NewNotFound KNamespace ([], name)), w1)))"

text \<open>
  Certificates, Issuers and CertificateSets have a status subresource: a create stores no
  status, an update keeps the stored one. A Secret is stored whole.
\<close>

definition createCertificate :: "certificate \<Rightarrow> world \<Rightarrow> error option \<times> world" where
  "createCertificate obj w =
     (case request Create KCertificate (meta_key (cert_meta obj)) w of
        (Some err, w1) \<Rightarrow> (Some err, w1)
      | (None, w1) \<Rightarrow>
          (case certificateAt w1 (meta_key (cert_meta obj)) of
             Some old \<Rightarrow> (Some (NewAlreadyExists KCertificate (meta_key (cert_meta obj))), w1)
           | None \<Rightarrow>
               (None, w1\<lparr>certificates :=
                  certificates w1 @ [obj\<lparr>cert_conditions := []\<rparr>]\<rparr>)))"

definition updateCertificate :: "certificate \<Rightarrow> world \<Rightarrow> error option \<times> world" where
  "updateCertificate obj w =
     (case request Update KCertificate (meta_key (cert_meta obj)) w of
        (Some err, w1) \<Rightarrow> (Some err, w1)
      | (None, w1) \<Rightarrow>
          (case certificateAt w1 (meta_key (cert_meta obj)) of
             None \<Rightarrow> (Some (NewNotFound KCertificate (meta_key (cert_meta obj))), w1)
           | Some old \<Rightarrow>
               (None, w1\<lparr>certificates :=
                  replace cert_meta (obj\<lparr>cert_conditions := cert_conditions old\<rparr>)
                    (certificates w1)\<rparr>)))"

definition createIssuer :: "issuer \<Rightarrow> world \<Rightarrow> error option \<times> world" where
  "createIssuer obj w =
     (case request Create KIssuer (meta_key (iss_meta obj)) w of
        (Some err, w1) \<Rightarrow> (Some err, w1)
      | (None, w1) \<Rightarrow>
          (case issuerAt w1 (meta_key (iss_meta obj)) of
             Some old \<Rightarrow> (Some (NewAlreadyExists KIssuer (meta_key (iss_meta obj))), w1)
           | None \<Rightarrow>
               (None, w1\<lparr>issuers := issuers w1 @ [obj\<lparr>iss_conditions := []\<rparr>]\<rparr>)))"

definition updateIssuer :: "issuer \<Rightarrow> world \<Rightarrow> error option \<times> world" where
  "updateIssuer obj w =
     (case request Update KIssuer (meta_key (iss_meta obj)) w of
        (Some err, w1) \<Rightarrow> (Some err, w1)
      | (None, w1) \<Rightarrow>
          (case issuerAt w1 (meta_key (iss_meta obj)) of
             None \<Rightarrow> (Some (NewNotFound KIssuer (meta_key (iss_meta obj))), w1)
           | Some old \<Rightarrow>
               (None, w1\<lparr>issuers :=
                  replace iss_meta (obj\<lparr>iss_conditions := iss_conditions old\<rparr>)
                    (issuers w1)\<rparr>)))"

definition createSecret :: "secret \<Rightarrow> world \<Rightarrow> error option \<times> world" where
  "createSecret obj w =
     (case request Create KSecret (meta_key (sec_meta obj)) w of
        (Some err, w1) \<Rightarrow> (Some err, w1)
      | (None, w1) \<Rightarrow>
          (case secretAt w1 (meta_key (sec_meta obj)) of
             Some old \<Rightarrow> (Some (NewAlreadyExists KSecret (meta_key (sec_meta obj))), w1)
           | None \<Rightarrow>
               (None, w1\<lparr>secrets := secrets w1 @ [obj]\<rparr>)))"

definition updateSecret :: "secret \<Rightarrow> world \<Rightarrow> error option \<times> world" where
  "updateSecret obj w =
     (case request Update KSecret (meta_key (sec_meta obj)) w of
        (Some err, w1) \<Rightarrow> (Some err, w1)
      | (None, w1) \<Rightarrow>
          (case secretAt w1 (meta_key (sec_meta obj)) of
             None \<Rightarrow> (Some (NewNotFound KSecret (meta_key (sec_meta obj))), w1)
           | Some old \<Rightarrow>
               (None, w1\<lparr>secrets := replace sec_meta obj (secrets w1)\<rparr>)))"

definition deleteSecret :: "secret \<Rightarrow> world \<Rightarrow> error option \<times> world" where
  "deleteSecret obj w =
     (case request Delete KSecret (meta_key (sec_meta obj)) w of
        (Some err, w1) \<Rightarrow> (Some err, w1)
      | (None, w1) \<Rightarrow>
          (case secretAt w1 (meta_key (sec_meta obj)) of
             None \<Rightarrow> (Some (NewNotFound KSecret (meta_key (sec_meta obj))), w1)
           | Some old \<Rightarrow>
               (None, w1\<lparr>secrets :=
                  remove sec_meta (meta_key (sec_meta obj)) (secrets w1)\<rparr>)))"

definition updateCertificateSet :: "certificate_set \<Rightarrow> world \<Rightarrow> error option \<times> world" where
  "updateCertificateSet obj w =
     (case request Update KCertificateSet (meta_key (cs_meta obj)) w of
        (Some err, w1) \<Rightarrow> (Some err, w1)
      | (None, w1) \<Rightarrow>
          (case certificateSetAt w1 (meta_key (cs_meta obj)) of
             None \<Rightarrow> (Some (NewNotFound KCertificateSet (meta_key (cs_meta obj))), w1)
           | Some old \<Rightarrow>
               (None, w1\<lparr>certificateSets :=
                  replace cs_meta (obj\<lparr>cs_conditions := cs_conditions old\<rparr>)
                    (certificateSets w1)\<rparr>)))"

text \<open>
  \<open>patchStatus\<close>: \<open>Status().Patch(ctx, cs, client.MergeFrom(original))\<close>. The call is
  sent whatever the difference is. A JSON merge patch replaces a list as a whole, so the
  stored conditions become those of \<open>cs\<close> when they differ from the snapshot's, and stay
  as they are stored when the patch is empty.
\<close>

definition patchStatus :: "certificate_set \<Rightarrow> certificate_set \<Rightarrow> world \<Rightarrow> error option \<times> world" where
  "patchStatus cs original w =
     (case request PatchStatus KCertificateSet (meta_key (cs_meta cs)) w of
        (Some err, w1) \<Rightarrow> (Some err, w1)
      | (None, w1) \<Rightarrow>
          (case certificateSetAt w1 (meta_key (cs_meta cs)) of
             None \<Rightarrow> (Some (NewNotFound KCertificateSet (meta_key (cs_meta cs))), w1)
           | Some stored \<Rightarrow>
               (None, w1\<lparr>certificateSets :=
                  replace cs_meta
                    (stored\<lparr>cs_conditions :=
                       (if cs_conditions cs = cs_conditions original then cs_conditions stored
                        else cs_conditions cs)\<rparr>)
                    (certificateSets w1)\<rparr>)))"


section \<open>Readiness (certificateset\_helpers.go)\<close>

definition isSecretReady :: "key \<Rightarrow> world \<Rightarrow> (bool \<times> error option) \<times> world" where
  "isSecretReady key w =
     (case getSecret key w of
        (Inl err, w1) \<Rightarrow>
          (if IsNotFound err then ((False, None), w1) else ((False, Some err), w1))
      | (Inr secret, w1) \<Rightarrow>
          (let hasCACrt = (Mapping.lookup (sec_data secret) ''ca.crt'' \<noteq> None);
               hasTLSCrt = (Mapping.lookup (sec_data secret) ''tls.crt'' \<noteq> None);
               hasTLSKey = (Mapping.lookup (sec_data secret) ''tls.key'' \<noteq> None)
           in ((hasCACrt \<and> hasTLSCrt \<and> hasTLSKey, None), w1)))"

text \<open>The loop over the conditions returns at the first one of type Ready.\<close>

fun readyCondition :: "cm_condition list \<Rightarrow> bool" where
  "readyCondition [] = False"
| "readyCondition (cond # conds) =
     (if cm_type cond = ''Ready'' then cm_status cond = ConditionTrue else readyCondition conds)"

definition isCertificateReady :: "key \<Rightarrow> world \<Rightarrow> (bool \<times> error option) \<times> world" where
  "isCertificateReady key w =
     (case getCertificate key w of
        (Inl err, w1) \<Rightarrow>
          (if IsNotFound err then ((False, None), w1) else ((False, Some err), w1))
      | (Inr cert, w1) \<Rightarrow> ((readyCondition (cert_conditions cert), None), w1))"

definition isIssuerReady :: "key \<Rightarrow> world \<Rightarrow> (bool \<times> error option) \<times> world" where
  "isIssuerReady key w =
     (case getIssuer key w of
        (Inl err, w1) \<Rightarrow>
          (if IsNotFound err then ((False, None), w1) else ((False, Some err), w1))
      | (Inr issuer, w1) \<Rightarrow> ((readyCondition (iss_conditions issuer), None), w1))"



text \<open>
  The loop of \<open>checkAllResourcesReady\<close> over the certificate names; \<open>None\<close>: the loop
  ran to its end without returning.
\<close>

fun checkCertificates ::
  "string \<Rightarrow> string list \<Rightarrow> world \<Rightarrow> (bool \<times> string \<times> error option) option \<times> world" where
  "checkCertificates ns [] w = (None, w)"
| "checkCertificates ns (name # names) w =
     (case isCertificateReady (ns, name) w of
        ((ready, Some err), w1) \<Rightarrow>
          (Some (False, ''error checking Certificate '' @ name @ '': '' @ Error_text err, Some err), w1)
      | ((ready, None), w1) \<Rightarrow>
          (if \<not> ready then (Some (False, ''Certificate '' @ name @ '' is not ready'', None), w1)
           else checkCertificates ns names w1))"

definition checkAllResourcesReady ::
  "certificate_set \<Rightarrow> world \<Rightarrow> (bool \<times> string \<times> error option) \<times> world" where
  "checkAllResourcesReady cs w =
     (case checkCertificates (om_namespace (cs_meta cs)) (AllCertificateNames cs) w of
        (Some r, w1) \<Rightarrow> (r, w1)
      | (None, w1) \<Rightarrow>
          (let needsClientCerts = (kubeconfig (cs_spec cs) \<or> argocdCluster (cs_spec cs))
           in if needsClientCerts then
                (let issuerName = CAName cs
                 in case isIssuerReady (om_namespace (cs_meta cs), issuerName) w1 of
                      ((ready, Some err), w2) \<Rightarrow>
                        ((False, ''error checking Issuer '' @ issuerName @ '': '' @ Error_text err,
                          Some err), w2)
                    | ((ready, None), w2) \<Rightarrow>
                        (if \<not> ready
                         then ((False, ''Issuer '' @ issuerName @ '' is not ready'', None), w2)
                         else ((True, [], None), w2)))
              else ((True, [], None), w1)))"


section \<open>Certificate data and derived secrets (secret\_builders.go)\<close>

text \<open>\<open>base64.StdEncoding.EncodeToString\<close>: three bytes to four characters, padded.\<close>

definition base64_alphabet :: string where
  "base64_alphabet = ''ABCDEFGHIJKLMNOPQRSTUVWXYZabcdefghijklmnopqrstuvwxyz0123456789+/''"

definition base64_char :: "nat \<Rightarrow> char" where
  "base64_char n = base64_alphabet ! (n mod 64)"

fun base64_groups :: "nat list \<Rightarrow> string" where
  "base64_groups [] = []"
| "base64_groups [a] =
     [base64_char (a div 4), base64_char ((a mod 4) * 16), CHR ''='', CHR ''='']"
| "base64_groups [a, b] =
     [base64_char (a div 4), base64_char ((a mod 4) * 16 + b div 16),
      base64_char ((b mod 16) * 4), CHR ''='']"
| "base64_groups (a # b # c # rest) =
     [base64_char (a div 4), base64_char ((a mod 4) * 16 + b div 16),
      base64_char ((b mod 16) * 4 + c div 64), base64_char (c mod 64)] @ base64_groups rest"

definition EncodeToString :: "string \<Rightarrow> string" where
  "EncodeToString bs = base64_groups (map of_char bs)"

text \<open>Reading a missing key of a Go map gives the zero value: the empty byte string.\<close>

definition bytes_at :: "(string, string) mapping \<Rightarrow> string \<Rightarrow> string" where
  "bytes_at m k = (case Mapping.lookup m k of None \<Rightarrow> [] | Some v \<Rightarrow> v)"

record CertificateData =
  CACert :: string
  TLSCert :: string
  TLSKey :: string

definition getCertificateData :: "key \<Rightarrow> world \<Rightarrow> (error + CertificateData) \<times> world" where
  "getCertificateData key w =
     (case getSecret key w of
        (Inl err, w1) \<Rightarrow> (Inl err, w1)
      | (Inr secret, w1) \<Rightarrow>
          (Inr \<lparr>CACert = EncodeToString (bytes_at (sec_data secret) ''ca.crt''),
                TLSCert = EncodeToString (bytes_at (sec_data secret) ''tls.crt''),
                TLSKey = EncodeToString (bytes_at (sec_data secret) ''tls.key'')\<rparr>, w1))"

fun join_lines :: "string list \<Rightarrow> string" where
  "join_lines [] = []"
| "join_lines [l] = l"
| "join_lines (l # ls) = l @ [CHR 0x0A] @ join_lines ls"

record kubeconfigData =
  kd_ClusterName :: string
  kd_Server :: string
  kd_CACert :: string
  kd_TLSCert :: string
  kd_TLSKey :: string

text \<open>
  Executing the two parsed templates: every action is a field of the data, written out as
  it is, so the execution into a buffer has no failing step.
\<close>

definition kubeconfigTemplate_Execute :: "kubeconfigData \<Rightarrow> error + string" where
  "kubeconfigTemplate_Execute d = Inr (join_lines
     [''apiVersion: v1'',
      ''clusters:'',
      ''    - cluster:'',
      ''        certificate-authority-data: '' @ kd_CACert d,
      ''        server: '' @ kd_Server d,
      ''      name: '' @ kd_ClusterName d,
      ''contexts:'',
      ''    - context:'',
      ''        cluster: '' @ kd_ClusterName d,
      ''        user: '' @ kd_ClusterName d @ ''-super-admin'',
      ''      name: '' @ kd_ClusterName d @ ''-super-admin@'' @ kd_ClusterName d,
      ''current-context: '' @ kd_ClusterName d @ ''-super-admin@'' @ kd_ClusterName d,
      ''kind: Config'',
      ''users:'',
      ''    - name: '' @ kd_ClusterName d @ ''-super-admin'',
      ''      user:'',
      ''        client-certificate-data: '' @ kd_TLSCert d,
      ''        client-key-data: '' @ kd_TLSKey d])"

definition argoCDConfigTemplate_Execute :: "CertificateData \<Rightarrow> error + string" where
  "argoCDConfigTemplate_Execute d = Inr (join_lines
     [''{'',
      ''  '' @ quoted ''tlsClientConfig'' @ '': {'',
      ''    '' @ quoted ''caData'' @ '': '' @ quoted (CACert d) @ '','',
      ''    '' @ quoted ''certData'' @ '': '' @ quoted (TLSCert d) @ '','',
      ''    '' @ quoted ''insecure'' @ '': false,'',
      ''    '' @ quoted ''keyData'' @ '': '' @ quoted (TLSKey d),
      ''  }'',
      ''}''])"

definition SecretTypeOpaque :: string where "SecretTypeOpaque = ''Opaque''"

definition ArgoCDNamespace :: string where "ArgoCDNamespace = ''beget-argocd''"

definition buildKubeconfigSecret :: "certificate_set \<Rightarrow> CertificateData \<Rightarrow> error + secret" where
  "buildKubeconfigSecret cs certData =
     (case kubeconfigTemplate_Execute
             \<lparr>kd_ClusterName = om_name (cs_meta cs),
              kd_Server = kubeconfigEndpoint (cs_spec cs),
              kd_CACert = CACert certData, kd_TLSCert = TLSCert certData,
              kd_TLSKey = TLSKey certData\<rparr> of
        Inl err \<Rightarrow> Inl (Errorf_w ''failed to render kubeconfig template'' err)
      | Inr kubeconfigContent \<Rightarrow>
          Inr \<lparr>sec_meta = empty_meta\<lparr>om_name := KubeconfigName cs,
                   om_namespace := om_namespace (cs_meta cs),
                   om_labels := om_labels (cs_meta cs),
                   om_annotations :=
                     copyAnnotationsForChildResource (om_annotations (cs_meta cs))\<rparr>,
               sec_type = SecretTypeOpaque,
               sec_data = Mapping.update ''value'' kubeconfigContent Mapping.empty\<rparr>)"

definition buildArgoCDClusterSecret :: "certificate_set \<Rightarrow> CertificateData \<Rightarrow> error + secret" where
  "buildArgoCDClusterSecret cs certData =
     (case argoCDConfigTemplate_Execute certData of
        Inl err \<Rightarrow> Inl (Errorf_w ''failed to render ArgoCD config template'' err)
      | Inr config \<Rightarrow>
          Inr \<lparr>sec_meta = empty_meta\<lparr>om_name := ArgoCDClusterName cs,
                   om_namespace := ArgoCDNamespace,
                   om_labels := Mapping.update ''argocd.argoproj.io/secret-type'' ''cluster''
                     (om_labels (cs_meta cs)),
                   om_annotations :=
                     copyAnnotationsForChildResource (om_annotations (cs_meta cs))\<rparr>,
               sec_type = SecretTypeOpaque,
               sec_data = Mapping.update ''server'' (kubeconfigEndpoint (cs_spec cs))
                  (Mapping.update ''name'' (om_name (cs_meta cs))
                    (Mapping.update ''config'' config Mapping.empty))\<rparr>)"


section \<open>Creating and updating children (certificateset\_helpers.go)\<close>

text \<open>
  \<open>controllerutil.SetControllerReference\<close> with a CertificateSet as the owner: the
  owner and the object must share the namespace, an object controlled by another owner
  is refused, and the reference replaces one to the same owner or is appended. The
  owner's kind is taken to be registered in the scheme.
\<close>

definition controllerReference :: "certificate_set \<Rightarrow> owner_reference" where
  "controllerReference owner =
     \<lparr>or_apiVersion = ''in-cloud.io/v1alpha1'', or_kind = ''CertificateSet'',
      or_name = om_name (cs_meta owner), or_uid = om_uid (cs_meta owner),
      or_controller = True, or_blockOwnerDeletion = True\<rparr>"

definition referSameObject :: "owner_reference \<Rightarrow> owner_reference \<Rightarrow> bool" where
  "referSameObject a b =
     (ParseGroupVersion_Group (or_apiVersion a) = ParseGroupVersion_Group (or_apiVersion b)
      \<and> or_kind a = or_kind b \<and> or_name a = or_name b)"

definition upsertOwnerRef :: "owner_reference \<Rightarrow> owner_reference list \<Rightarrow> owner_reference list" where
  "upsertOwnerRef ref owners =
     (if find (\<lambda>r. referSameObject r ref) owners = None then owners @ [ref]
      else update_first (\<lambda>r. referSameObject r ref) (\<lambda>r. ref) owners)"

definition SetControllerReference :: "certificate_set \<Rightarrow> object_meta \<Rightarrow> error + object_meta" where
  "SetControllerReference owner controlled =
     (let ownerNs = om_namespace (cs_meta owner)
      in if ownerNs \<noteq> [] \<and> om_namespace controlled = []
         then Inl (Errorf ''cluster-scoped resource must not have a namespace-scoped owner'')
         else if ownerNs \<noteq> [] \<and> ownerNs \<noteq> om_namespace controlled
         then Inl (Errorf ''cross-namespace owner references are disallowed'')
         else (case find or_controller (om_ownerReferences controlled) of
                 Some existing \<Rightarrow>
                   if \<not> referSameObject existing (controllerReference owner)
                   then Inl (Error AlreadyOwned ''Object is already owned by another controller'')
                   else Inr (controlled\<lparr>om_ownerReferences :=
                          upsertOwnerRef (controllerReference owner) (om_ownerReferences controlled)\<rparr>)
               | None \<Rightarrow>
                   Inr (controlled\<lparr>om_ownerReferences :=
                          upsertOwnerRef (controllerReference owner) (om_ownerReferences controlled)\<rparr>)))"

text \<open>
  The mutate function that \<open>createOrUpdateCertificate\<close> hands to
  \<open>controllerutil.CreateOrUpdate\<close>: owner reference, labels, annotations and spec of
  the existing object are overwritten from the desired one.
\<close>

definition mutateCertificate :: "certificate_set \<Rightarrow> certificate \<Rightarrow> certificate \<Rightarrow> error + certificate" where
  "mutateCertificate cs desired existing =
     (case SetControllerReference cs (cert_meta existing) of
        Inl err \<Rightarrow> Inl err
      | Inr m \<Rightarrow>
          Inr (existing\<lparr>cert_meta := m\<lparr>om_labels := om_labels (cert_meta desired),
                            om_annotations := om_annotations (cert_meta desired)\<rparr>,
                 cert_spec := cert_spec desired\<rparr>))"

definition mutateIssuer :: "certificate_set \<Rightarrow> issuer \<Rightarrow> issuer \<Rightarrow> error + issuer" where
  "mutateIssuer cs desired existing =
     (case SetControllerReference cs (iss_meta existing) of
        Inl err \<Rightarrow> Inl err
      | Inr m \<Rightarrow>
          Inr (existing\<lparr>iss_meta := m\<lparr>om_labels := om_labels (iss_meta desired),
                            om_annotations := om_annotations (iss_meta desired)\<rparr>,
                 iss_caSecretName := iss_caSecretName desired\<rparr>))"

text \<open>
  \<open>controllerutil.CreateOrUpdate\<close> (controller-runtime), at the two types it is used
  at: get the object; when it is not found, mutate the blank object and create it;
  when it is found, mutate it and update it unless the mutation changed nothing. A get
  error other than not-found, a mutation error and a create or update error are
  returned. The operation result is only logged by the callers and is left out.
\<close>

definition CreateOrUpdate_Certificate ::
  "certificate \<Rightarrow> (certificate \<Rightarrow> error + certificate) \<Rightarrow> world \<Rightarrow> error option \<times> world" where
  "CreateOrUpdate_Certificate obj f w =
     (case getCertificate (meta_key (cert_meta obj)) w of
        (Inl err, w1) \<Rightarrow>
          (if \<not> IsNotFound err then (Some err, w1)
           else (case f obj of
                   Inl err \<Rightarrow> (Some err, w1)
                 | Inr mutated \<Rightarrow> createCertificate mutated w1))
      | (Inr existing, w1) \<Rightarrow>
          (case f existing of
             Inl err \<Rightarrow> (Some err, w1)
           | Inr mutated \<Rightarrow>
               (if mutated = existing then (None, w1) else updateCertificate mutated w1)))"

definition CreateOrUpdate_Issuer ::
  "issuer \<Rightarrow> (issuer \<Rightarrow> error + issuer) \<Rightarrow> world \<Rightarrow> error option \<times> world" where
  "CreateOrUpdate_Issuer obj f w =
     (case getIssuer (meta_key (iss_meta obj)) w of
        (Inl err, w1) \<Rightarrow>
          (if \<not> IsNotFound err then (Some err, w1)
           else (case f obj of
                   Inl err \<Rightarrow> (Some err, w1)
                 | Inr mutated \<Rightarrow> createIssuer mutated w1))
      | (Inr existing, w1) \<Rightarrow>
          (case f existing of
             Inl err \<Rightarrow> (Some err, w1)
           | Inr mutated \<Rightarrow>
               (if mutated = existing then (None, w1) else updateIssuer mutated w1)))"

definition createOrUpdateCertificate ::
  "certificate_set \<Rightarrow> certificate \<Rightarrow> world \<Rightarrow> error option \<times> world" where
  "createOrUpdateCertificate cs desired w =
     (let existing = \<lparr>cert_meta = empty_meta\<lparr>om_name := om_name (cert_meta desired),
                         om_namespace := om_namespace (cert_meta desired)\<rparr>,
                       cert_spec = \<lparr>sp_commonName = [], sp_duration = None, sp_isCA = False,
                         sp_issuerRef = no_reference, sp_privateKey = None,
                         sp_renewBefore = None, sp_secretName = [],
                         sp_secretTemplateLabels = None, sp_subjectOrganizations = None,
                         sp_usages = []\<rparr>,
                       cert_conditions = []\<rparr>
      in case CreateOrUpdate_Certificate existing (mutateCertificate cs desired) w of
           (Some err, w1) \<Rightarrow>
             (Some (Errorf_w (''failed to create/update Certificate '' @ om_name (cert_meta desired)) err),
              w1)
         | (None, w1) \<Rightarrow> (None, w1))"

definition createOrUpdateIssuer ::
  "certificate_set \<Rightarrow> issuer \<Rightarrow> world \<Rightarrow> error option \<times> world" where
  "createOrUpdateIssuer cs desired w =
     (let existing = \<lparr>iss_meta = empty_meta\<lparr>om_name := om_name (iss_meta desired),
                         om_namespace := om_namespace (iss_meta desired)\<rparr>,
                       iss_caSecretName = None, iss_conditions = []\<rparr>
      in case CreateOrUpdate_Issuer existing (mutateIssuer cs desired) w of
           (Some err, w1) \<Rightarrow>
             (Some (Errorf_w (''failed to create/update Issuer '' @ om_name (iss_meta desired)) err),
              w1)
         | (None, w1) \<Rightarrow> (None, w1))"

fun secretDataEqualForKeys ::
  "(string, string) mapping \<Rightarrow> (string, string) mapping \<Rightarrow> string list \<Rightarrow> bool" where
  "secretDataEqualForKeys existing new [] = True"
| "secretDataEqualForKeys existing new (k # keys) =
     (let eok = (Mapping.lookup existing k \<noteq> None); nok = (Mapping.lookup new k \<noteq> None)
      in if eok \<noteq> nok then False
         else if eok \<and> bytes_at existing k \<noteq> bytes_at new k then False
         else secretDataEqualForKeys existing new keys)"

fun copyManagedKeys ::
  "string list \<Rightarrow> (string, string) mapping \<Rightarrow> (string, string) mapping
    \<Rightarrow> (string, string) mapping" where
  "copyManagedKeys [] new existing = existing"
| "copyManagedKeys (k # keys) new existing =
     copyManagedKeys keys new (Mapping.update k (bytes_at new k) existing)"

definition createOrUpdateSecret :: "secret \<Rightarrow> string list \<Rightarrow> world \<Rightarrow> error option \<times> world" where
  "createOrUpdateSecret secret managedKeys w =
     (case getSecret (meta_key (sec_meta secret)) w of
        (Inl err, w1) \<Rightarrow>
          (if IsNotFound err then createSecret secret w1 else (Some err, w1))
      | (Inr existing, w1) \<Rightarrow>
          (if \<not> secretDataEqualForKeys (sec_data existing) (sec_data secret) managedKeys
           then updateSecret
                  (existing\<lparr>sec_data := copyManagedKeys managedKeys (sec_data secret)
                                            (sec_data existing)\<rparr>) w1
           else (None, w1)))"

definition deleteSecretIfExists :: "key \<Rightarrow> world \<Rightarrow> error option \<times> world" where
  "deleteSecretIfExists key w =
     (case getSecret key w of
        (Inl err, w1) \<Rightarrow> (if IsNotFound err then (None, w1) else (Some err, w1))
      | (Inr secret, w1) \<Rightarrow>
          (case deleteSecret secret w1 of
             (Some err, w2) \<Rightarrow> (if \<not> IsNotFound err then (Some err, w2) else (None, w2))
           | (None, w2) \<Rightarrow> (None, w2)))"


section \<open>Reconciliation phases\<close>

definition reconcileCACertificates :: "certificate_set \<Rightarrow> world \<Rightarrow> error option \<times> world" where
  "reconcileCACertificates cs w =
     (case createOrUpdateCertificate cs (buildCACertificate cs) w of
        (Some err, w1) \<Rightarrow> (Some (Errorf_w ''failed to create CA Certificate'' err), w1)
      | (None, w1) \<Rightarrow>
          (if isSystemOrInfra (environment (cs_spec cs)) then
             (case createOrUpdateCertificate cs (buildETCDCertificate cs) w1 of
                (Some err, w2) \<Rightarrow> (Some (Errorf_w ''failed to create ETCD Certificate'' err), w2)
              | (None, w2) \<Rightarrow>
                  (case createOrUpdateCertificate cs (buildProxyCertificate cs) w2 of
                     (Some err, w3) \<Rightarrow>
                       (Some (Errorf_w ''failed to create Proxy Certificate'' err), w3)
                   | (None, w3) \<Rightarrow>
                       (case createOrUpdateCertificate cs (buildOIDCCertificate cs) w3 of
                          (Some err, w4) \<Rightarrow>
                            (Some (Errorf_w ''failed to create OIDC Certificate'' err), w4)
                        | (None, w4) \<Rightarrow> (None, w4))))
           else (None, w1)))"

definition reconcileClientCertificates :: "certificate_set \<Rightarrow> world \<Rightarrow> error option \<times> world" where
  "reconcileClientCertificates cs w =
     (let issuer = buildIssuer cs
      in case createOrUpdateIssuer cs issuer w of
           (Some err, w1) \<Rightarrow> (Some (Errorf_w ''failed to create Issuer'' err), w1)
         | (None, w1) \<Rightarrow>
             (case createOrUpdateCertificate cs
                     (buildSuperAdminCertificate cs (om_name (iss_meta issuer))) w1 of
                (Some err, w2) \<Rightarrow>
                  (Some (Errorf_w ''failed to create super-admin Certificate'' err), w2)
              | (None, w2) \<Rightarrow> (None, w2)))"

definition reconcileDerivedSecrets ::
  "certificate_set \<Rightarrow> CertificateData \<Rightarrow> world \<Rightarrow> error option \<times> world" where
  "reconcileDerivedSecrets cs certData w =
     (case (if kubeconfig (cs_spec cs) then
              (case buildKubeconfigSecret cs certData of
                 Inl err \<Rightarrow> (Some (Errorf_w ''failed to build kubeconfig Secret'' err), w)
               | Inr kubeconfigSecret \<Rightarrow>
                   (case SetControllerReference cs (sec_meta kubeconfigSecret) of
                      Inl err \<Rightarrow>
                        (Some (Errorf_w ''failed to set owner reference on kubeconfig Secret'' err), w)
                    | Inr m \<Rightarrow>
                        (case createOrUpdateSecret (kubeconfigSecret\<lparr>sec_meta := m\<rparr>)
                                [''value''] w of
                           (Some err, w1) \<Rightarrow>
                             (Some (Errorf_w ''failed to create kubeconfig Secret'' err), w1)
                         | (None, w1) \<Rightarrow> (None, w1))))
            else (None, w)) of
        (Some err, w1) \<Rightarrow> (Some err, w1)
      | (None, w1) \<Rightarrow>
          (if argocdCluster (cs_spec cs) then
             (case getNamespace ArgoCDNamespace w1 of
                (Some err, w2) \<Rightarrow>
                  (if IsNotFound err
                   then (Some (Errorf (''ArgoCD namespace '' @ quoted ArgoCDNamespace
                                        @ '' does not exist'')), w2)
                   else (Some (Errorf_w ''failed to check ArgoCD namespace'' err), w2))
              | (None, w2) \<Rightarrow>
                  (case buildArgoCDClusterSecret cs certData of
                     Inl err \<Rightarrow>
                       (Some (Errorf_w ''failed to build ArgoCD cluster Secret'' err), w2)
                   | Inr argocdSecret \<Rightarrow>
                       (case createOrUpdateSecret argocdSecret
                               [''config'', ''name'', ''server''] w2 of
                          (Some err, w3) \<Rightarrow>
                            (Some (Errorf_w ''failed to create ArgoCD cluster Secret'' err), w3)
                        | (None, w3) \<Rightarrow> (None, w3))))
           else (None, w1)))"


section \<open>The reconciler (certificateset\_controller.go)\<close>

definition finalizerName :: string where
  "finalizerName = ''certificateset.in-cloud.io/cleanup''"

definition defaultRequeueAfter :: int where
  "defaultRequeueAfter = 5 * Second"

record ctrl_result =
  Requeue :: bool
  RequeueAfter :: int

definition no_requeue :: ctrl_result where
  "no_requeue = \<lparr>Requeue = False, RequeueAfter = 0\<rparr>"

definition ContainsFinalizer :: "certificate_set \<Rightarrow> string \<Rightarrow> bool" where
  "ContainsFinalizer cs f = (f \<in> set (om_finalizers (cs_meta cs)))"

definition AddFinalizer :: "certificate_set \<Rightarrow> string \<Rightarrow> certificate_set" where
  "AddFinalizer cs f =
     (if f \<in> set (om_finalizers (cs_meta cs)) then cs
      else cs\<lparr>cs_meta := (cs_meta cs)\<lparr>om_finalizers := om_finalizers (cs_meta cs) @ [f]\<rparr>\<rparr>)"

definition RemoveFinalizer :: "certificate_set \<Rightarrow> string \<Rightarrow> certificate_set" where
  "RemoveFinalizer cs f =
     cs\<lparr>cs_meta := (cs_meta cs)\<lparr>om_finalizers := filter (\<lambda>e. e \<noteq> f) (om_finalizers (cs_meta cs))\<rparr>\<rparr>"

text \<open>
  What one run of \<open>Reconcile\<close> gives: the result and the error it returns, and, as an
  observation of the run, the \<open>setCondition\<close> calls it made on the object in memory, in
  order, each with the boolean the call returned. Log lines are left out.
\<close>

datatype condition_call = SetCondition string condition_status string string bool

record run =
  run_result :: ctrl_result
  run_error :: "error option"
  run_conditions :: "condition_call list"

definition traced_setCondition ::
  "nat \<Rightarrow> string \<Rightarrow> condition_status \<Rightarrow> string \<Rightarrow> string
    \<Rightarrow> certificate_set \<times> condition_call list \<Rightarrow> certificate_set \<times> condition_call list" where
  "traced_setCondition now condType status reason message t =
     (case setCondition now (fst t) condType status reason message of
        (changed, cs') \<Rightarrow> (cs', snd t @ [SetCondition condType status reason message changed]))"

text \<open>
  A run sets Ready to true; and a world \<open>w5\<close>, with the stored CertificateSets and the
  status writes of \<open>w\<close>, in which the readiness check passes.
\<close>

abbreviation sets_ready :: "run \<Rightarrow> bool" where
  "sets_ready r \<equiv>
     (\<exists>reason m changed.
        SetCondition ConditionTypeReady ConditionTrue reason m changed \<in> set (run_conditions r))"

abbreviation passes_check :: "certificate_set \<Rightarrow> world \<Rightarrow> world \<Rightarrow> bool" where
  "passes_check cs w w5 \<equiv>
     certificateSets w5 = certificateSets w \<and> status_writes w5 = status_writes w
     \<and> (\<exists>n. fst (checkAllResourcesReady cs w5) = (True, n, None))"

text \<open>
  The exit shared by the failing phases: \<open>Degraded\<close> is set with the phase's reason and
  the error text, the status is patched against the snapshot (a patch error is only
  logged), and the phase's error is returned.
\<close>

definition degraded_exit :: "string \<Rightarrow> error \<Rightarrow> certificate_set \<Rightarrow> certificate_set \<Rightarrow> world \<Rightarrow> run \<times> world" where
  "degraded_exit reason err cs csOriginal w =
     (let t = traced_setCondition (clock w) ConditionTypeDegraded ConditionTrue reason
                (Error_text err) (cs, [])
      in case patchStatus (fst t) csOriginal w of
           (patchErr, w1) \<Rightarrow>
             (\<lparr>run_result = no_requeue, run_error = Some err, run_conditions = snd t\<rparr>, w1))"

definition reconcileDelete :: "certificate_set \<Rightarrow> world \<Rightarrow> run \<times> world" where
  "reconcileDelete cs w =
     (let argocdSecretName = ArgoCDClusterName cs
      in case deleteSecretIfExists (ArgoCDNamespace, argocdSecretName) w of
           (Some err, w1) \<Rightarrow>
             (\<lparr>run_result = no_requeue, run_error = Some err, run_conditions = []\<rparr>, w1)
         | (None, w1) \<Rightarrow>
             (case updateCertificateSet (RemoveFinalizer cs finalizerName) w1 of
                (Some err, w2) \<Rightarrow>
                  (\<lparr>run_result = no_requeue, run_error = Some err, run_conditions = []\<rparr>, w2)
              | (None, w2) \<Rightarrow>
                  (\<lparr>run_result = no_requeue, run_error = None, run_conditions = []\<rparr>, w2)))"

text \<open>
  The body of \<open>Reconcile\<close> after the finalizer check, in the order of the source and cut
  at its step comments. \<open>csOriginal\<close> is the deep copy taken before step 1.
\<close>

definition Reconcile_step7 :: "certificate_set \<Rightarrow> certificate_set \<Rightarrow> world \<Rightarrow> run \<times> world" where
  "Reconcile_step7 cs csOriginal w =
     (let t = traced_setCondition (clock w) ConditionTypeReady ConditionTrue
                ''AllResourcesReady'' ''All certificate resources created and ready'' (cs, []);
          t = traced_setCondition (clock w) ConditionTypeDegraded ConditionFalse
                ''Healthy'' ''No errors'' t;
          t = traced_setCondition (clock w) ConditionTypeProgressing ConditionFalse
                ''Complete'' ''Reconciliation complete'' t
      in case patchStatus (fst t) csOriginal w of
           (Some err, w1) \<Rightarrow>
             (\<lparr>run_result = no_requeue, run_error = Some err, run_conditions = snd t\<rparr>, w1)
         | (None, w1) \<Rightarrow>
             (\<lparr>run_result = no_requeue, run_error = None, run_conditions = snd t\<rparr>, w1))"

definition Reconcile_step6 :: "certificate_set \<Rightarrow> certificate_set \<Rightarrow> world \<Rightarrow> run \<times> world" where
  "Reconcile_step6 cs csOriginal w =
     (case checkAllResourcesReady cs w of
        ((allReady, notReadyReason, Some err), w1) \<Rightarrow>
          (let t = traced_setCondition (clock w1) ConditionTypeReady ConditionFalse
                     ''CheckFailed'' (Error_text err) (cs, []);
               t = traced_setCondition (clock w1) ConditionTypeDegraded ConditionTrue
                     ''Error'' (Error_text err) t
           in case patchStatus (fst t) csOriginal w1 of
                (patchErr, w2) \<Rightarrow>
                  (\<lparr>run_result = no_requeue, run_error = Some err, run_conditions = snd t\<rparr>, w2))
      | ((allReady, notReadyReason, None), w1) \<Rightarrow>
          (if \<not> allReady then
             (let t = traced_setCondition (clock w1) ConditionTypeReady ConditionFalse
                        ''WaitingForResources'' notReadyReason (cs, []);
                  t = traced_setCondition (clock w1) ConditionTypeProgressing ConditionTrue
                        ''ResourcesPending'' notReadyReason t;
                  t = traced_setCondition (clock w1) ConditionTypeDegraded ConditionFalse
                        ''Healthy'' ''No errors'' t
              in case patchStatus (fst t) csOriginal w1 of
                   (Some err, w2) \<Rightarrow>
                     (\<lparr>run_result = no_requeue, run_error = Some err, run_conditions = snd t\<rparr>, w2)
                 | (None, w2) \<Rightarrow>
                     (\<lparr>run_result = \<lparr>Requeue = False, RequeueAfter = defaultRequeueAfter\<rparr>,
                       run_error = None, run_conditions = snd t\<rparr>, w2))
           else Reconcile_step7 cs csOriginal w1))"

definition Reconcile_cleanup :: "certificate_set \<Rightarrow> certificate_set \<Rightarrow> world \<Rightarrow> run \<times> world" where
  "Reconcile_cleanup cs csOriginal w =
     (if \<not> argocdCluster (cs_spec cs) then
        (let argocdSecretName = ArgoCDClusterName cs
         in case deleteSecretIfExists (ArgoCDNamespace, argocdSecretName) w of
              (Some err, w1) \<Rightarrow> degraded_exit ''ArgoCDCleanupFailed'' err cs csOriginal w1
            | (None, w1) \<Rightarrow> Reconcile_step6 cs csOriginal w1)
      else Reconcile_step6 cs csOriginal w)"

definition Reconcile_step3 :: "certificate_set \<Rightarrow> certificate_set \<Rightarrow> world \<Rightarrow> run \<times> world" where
  "Reconcile_step3 cs csOriginal w =
     (let needsClientCerts = (kubeconfig (cs_spec cs) \<or> argocdCluster (cs_spec cs))
      in if needsClientCerts then
           (case reconcileClientCertificates cs w of
              (Some err, w1) \<Rightarrow> degraded_exit ''ClientCertificatesFailed'' err cs csOriginal w1
            | (None, w1) \<Rightarrow>
                (let superAdminSecretName = SuperAdminName cs
                 in case isSecretReady (om_namespace (cs_meta cs), superAdminSecretName) w1 of
                      ((superAdminReady, Some err), w2) \<Rightarrow>
                        (\<lparr>run_result = no_requeue, run_error = Some err, run_conditions = []\<rparr>, w2)
                    | ((superAdminReady, None), w2) \<Rightarrow>
                        (if \<not> superAdminReady then
                           (\<lparr>run_result = \<lparr>Requeue = False, RequeueAfter = defaultRequeueAfter\<rparr>,
                             run_error = None, run_conditions = []\<rparr>, w2)
                         else
                           (case getCertificateData
                                   (om_namespace (cs_meta cs), superAdminSecretName) w2 of
                              (Inl err, w3) \<Rightarrow>
                                (\<lparr>run_result = no_requeue, run_error = Some err,
                                  run_conditions = []\<rparr>, w3)
                            | (Inr certData, w3) \<Rightarrow>
                                (case reconcileDerivedSecrets cs certData w3 of
                                   (Some err, w4) \<Rightarrow>
                                     degraded_exit ''DerivedSecretsFailed'' err cs csOriginal w4
                                 | (None, w4) \<Rightarrow> Reconcile_cleanup cs csOriginal w4)))))
         else Reconcile_cleanup cs csOriginal w)"

definition Reconcile_step1 :: "certificate_set \<Rightarrow> world \<Rightarrow> run \<times> world" where
  "Reconcile_step1 cs w =
     (let csOriginal = cs
      in case reconcileCACertificates cs w of
           (Some err, w1) \<Rightarrow> degraded_exit ''CACertificatesFailed'' err cs csOriginal w1
         | (None, w1) \<Rightarrow>
             (case isSecretReady (om_namespace (cs_meta cs), CAName cs) w1 of
                ((caSecretReady, Some err), w2) \<Rightarrow>
                  (\<lparr>run_result = no_requeue, run_error = Some err, run_conditions = []\<rparr>, w2)
              | ((caSecretReady, None), w2) \<Rightarrow>
                  (if \<not> caSecretReady then
                     (\<lparr>run_result = \<lparr>Requeue = False, RequeueAfter = defaultRequeueAfter\<rparr>,
                       run_error = None, run_conditions = []\<rparr>, w2)
                   else Reconcile_step3 cs csOriginal w2)))"

definition Reconcile :: "key \<Rightarrow> world \<Rightarrow> run \<times> world" where
  "Reconcile req w =
     (case getCertificateSet req w of
        (Inl err, w1) \<Rightarrow>
          (if IsNotFound err
           then (\<lparr>run_result = no_requeue, run_error = None, run_conditions = []\<rparr>, w1)
           else (\<lparr>run_result = no_requeue, run_error = Some err, run_conditions = []\<rparr>, w1))
      | (Inr cs, w1) \<Rightarrow>
          (if \<not> IsZero (om_deletionTimestamp (cs_meta cs)) then reconcileDelete cs w1
           else if \<not> ContainsFinalizer cs finalizerName then
             (case updateCertificateSet (AddFinalizer cs finalizerName) w1 of
                (Some err, w2) \<Rightarrow>
                  (\<lparr>run_result = no_requeue, run_error = Some err, run_conditions = []\<rparr>, w2)
              | (None, w2) \<Rightarrow>
                  (\<lparr>run_result = \<lparr>Requeue = True, RequeueAfter = 0\<rparr>, run_error = None,
                    run_conditions = []\<rparr>, w2))
           else Reconcile_step1 cs w1))"


section \<open>Example clusters\<close>

text \<open>
  A CertificateSet \<open>x\<close> in namespace \<open>ns\<close> that carries the cleanup finalizer, for the
  client environment with both flags off, and variants of it.
\<close>

definition example_set :: certificate_set where
  "example_set =
     \<lparr>cs_meta = empty_meta\<lparr>om_name := ''x'', om_namespace := ''ns'', om_uid := ''u'',
                  om_generation := 1, om_finalizers := [finalizerName]\<rparr>,
      cs_spec = \<lparr>argocdCluster = False, environment = EnvironmentClient, kubeconfig = False,
                  issuerRef = \<lparr>ir_apiVersion = ''cert-manager.io/v1'',
                                 ir_kind = ''ClusterIssuer'', ir_name = ''new''\<rparr>,
                  issuerRefOidc = None, kubeconfigEndpoint = []\<rparr>,
      cs_conditions = []\<rparr>"

definition infra_set :: certificate_set where
  "infra_set = example_set\<lparr>cs_spec := (cs_spec example_set)\<lparr>environment := EnvironmentInfra\<rparr>\<rparr>"

definition argocd_set :: certificate_set where
  "argocd_set = example_set\<lparr>cs_spec := (cs_spec example_set)\<lparr>argocdCluster := True,
                   kubeconfigEndpoint := ''https://x:6443''\<rparr>\<rparr>"

definition deleting_set :: certificate_set where
  "deleting_set = argocd_set\<lparr>cs_meta := (cs_meta argocd_set)\<lparr>om_deletionTimestamp := Some 5\<rparr>\<rparr>"

definition unmarked_set :: certificate_set where
  "unmarked_set = example_set\<lparr>cs_meta := (cs_meta example_set)\<lparr>om_finalizers := []\<rparr>\<rparr>"

text \<open>
  The CA certificate as an earlier run built it, when the parent's \<open>issuerRef\<close> named the
  issuer \<open>old\<close>; cert-manager has since marked it Ready and filled its secret.
\<close>

definition stale_certificate :: certificate where
  "stale_certificate =
     (buildCACertificate
        (example_set\<lparr>cs_spec := (cs_spec example_set)\<lparr>issuerRef :=
           \<lparr>ir_apiVersion = ''cert-manager.io/v1'', ir_kind = ''ClusterIssuer'',
            ir_name = ''old''\<rparr>\<rparr>\<rparr>))
       \<lparr>cert_conditions := [\<lparr>cm_type = ''Ready'', cm_status = ConditionTrue\<rparr>]\<rparr>"

definition tls_secret :: "string \<Rightarrow> string \<Rightarrow> secret" where
  "tls_secret ns name =
     \<lparr>sec_meta = empty_meta\<lparr>om_name := name, om_namespace := ns\<rparr>,
      sec_type = ''kubernetes.io/tls'',
      sec_data = Mapping.update ''tls.key'' ''k'' (Mapping.update ''tls.crt'' ''c''
                   (Mapping.update ''ca.crt'' ''a'' Mapping.empty))\<rparr>"

definition registration_secret :: secret where
  "registration_secret =
     \<lparr>sec_meta = empty_meta\<lparr>om_name := ''x-argocd-cluster'', om_namespace := ''beget-argocd''\<rparr>,
      sec_type = ''Opaque'',
      sec_data = Mapping.update ''name'' ''x'' Mapping.empty\<rparr>"

definition fresh_cluster :: world where
  "fresh_cluster =
     \<lparr>certificateSets = [example_set], certificates = [], issuers = [], secrets = [],
      namespaces = {''ns''}, clock = 7, faults = [], calls = []\<rparr>"

definition stale_cluster :: world where
  "stale_cluster =
     fresh_cluster\<lparr>certificates := [stale_certificate], secrets := [tls_secret ''ns'' ''x-ca'']\<rparr>"

definition unmarked_cluster :: world where
  "unmarked_cluster = fresh_cluster\<lparr>certificateSets := [unmarked_set]\<rparr>"

definition failing_update_cluster :: world where
  "failing_update_cluster = unmarked_cluster\<lparr>faults := [None, Some ''connection refused'']\<rparr>"

definition argocd_cluster :: world where
  "argocd_cluster =
     fresh_cluster\<lparr>certificateSets := [argocd_set],
       secrets := [tls_secret ''ns'' ''x-ca'', tls_secret ''ns'' ''x-super-admin'']\<rparr>"

definition deleting_cluster :: world where
  "deleting_cluster =
     fresh_cluster\<lparr>certificateSets := [deleting_set], secrets := [registration_secret],
       namespaces := {''ns'', ''beget-argocd''}\<rparr>"

text \<open>
  The cluster after a first run on \<open>fresh_cluster\<close> (the CA certificate is created, not
  yet ready), and the cluster after a run with a ready CA certificate and a filled CA
  secret: the three conditions are recorded.
\<close>

definition converged_set :: certificate_set where
  "converged_set = example_set\<lparr>cs_conditions :=
     [\<lparr>c_type = ''Ready'', c_status = ConditionTrue, c_observedGeneration = 1,
       c_lastTransitionTime = 7, c_reason = ''AllResourcesReady'',
       c_message = ''All certificate resources created and ready''\<rparr>,
      \<lparr>c_type = ''Degraded'', c_status = ConditionFalse, c_observedGeneration = 1,
       c_lastTransitionTime = 7, c_reason = ''Healthy'', c_message = ''No errors''\<rparr>,
      \<lparr>c_type = ''Progressing'', c_status = ConditionFalse, c_observedGeneration = 1,
       c_lastTransitionTime = 7, c_reason = ''Complete'',
       c_message = ''Reconciliation complete''\<rparr>]\<rparr>"

definition created_certificate :: certificate where
  "created_certificate =
     (buildCACertificate example_set)
       \<lparr>cert_meta := (cert_meta (buildCACertificate example_set))
           \<lparr>om_ownerReferences := [controllerReference example_set]\<rparr>\<rparr>"

definition created_cluster :: world where
  "created_cluster = fresh_cluster\<lparr>certificates := [created_certificate]\<rparr>"

definition converged_cluster :: world where
  "converged_cluster =
     fresh_cluster\<lparr>certificateSets := [converged_set],
       certificates := [created_certificate
         \<lparr>cert_conditions := [\<lparr>cm_type = ''Ready'', cm_status = ConditionTrue\<rparr>]\<rparr>],
       secrets := [tls_secret ''ns'' ''x-ca'']\<rparr>"




section \<open>Properties\<close>

subsection \<open>Lists and conditions\<close>

lemma find_update_first:
  "(\<And>x. p x \<Longrightarrow> p (f x)) \<Longrightarrow> find p (update_first p f xs) = map_option f (find p xs)"
  by (induction xs) auto

lemma update_first_same: "find p xs = Some x \<Longrightarrow> f x = x \<Longrightarrow> update_first p f xs = xs"
  by (induction xs) (auto split: if_splits)

lemma find_append_None: "find p xs = None \<Longrightarrow> find p (xs @ ys) = find p ys"
  by (induction xs) (auto split: if_splits)

lemma merge_condition_type [simp]: "c_type (merge_condition now new e) = c_type e"
  by (simp add: merge_condition_def Let_def)

lemma FindStatusCondition_Set:
  "\<exists>c. FindStatusCondition (SetStatusCondition now conds new) (c_type new) = Some c
     \<and> c_status c = c_status new \<and> c_reason c = c_reason new \<and> c_message c = c_message new
     \<and> c_observedGeneration c = c_observedGeneration new"
proof (cases "FindStatusCondition conds (c_type new)")
  case None
  then show ?thesis
    by (simp add: SetStatusCondition_def FindStatusCondition_def find_append_None)
next
  case (Some e)
  then have "find (\<lambda>c. c_type c = c_type new)
               (update_first (\<lambda>c. c_type c = c_type new) (merge_condition now new) conds)
             = Some (merge_condition now new e)"
    by (simp add: find_update_first FindStatusCondition_def)
  with Some show ?thesis
    by (simp add: SetStatusCondition_def FindStatusCondition_def merge_condition_def Let_def)
qed

lemma condition_types_differ [simp]:
  "ConditionTypeDegraded \<noteq> ConditionTypeReady" "ConditionTypeProgressing \<noteq> ConditionTypeReady"
  "ConditionTypeDegraded \<noteq> ConditionTypeProgressing"
  "ConditionTypeReady \<noteq> ConditionTypeDegraded" "ConditionTypeReady \<noteq> ConditionTypeProgressing"
  "ConditionTypeProgressing \<noteq> ConditionTypeDegraded"
  by (simp_all add: ConditionTypeReady_def ConditionTypeDegraded_def ConditionTypeProgressing_def)

lemma setCondition_stamped:
  "stamped cs t s r m \<Longrightarrow> setCondition now cs t s r m = (False, cs)"
  by (auto simp: setCondition_def)

lemma traced_setCondition_simps [simp]:
  "cs_meta (fst (traced_setCondition now t s r m x)) = cs_meta (fst x)"
  "cs_spec (fst (traced_setCondition now t s r m x)) = cs_spec (fst x)"
  "snd (traced_setCondition now t s r m x)
     = snd x @ [SetCondition t s r m (fst (setCondition now (fst x) t s r m))]"
  by (simp_all add: traced_setCondition_def setCondition_def case_prod_beta split: option.splits)

subsection \<open>Evaluation\<close>

text \<open>
  The defining equations, for evaluating the model on the example clusters, and the
  runs on three of them.
\<close>

lemmas model_defs =
  Reconcile_def Reconcile_step1_def Reconcile_step3_def Reconcile_cleanup_def Reconcile_step6_def
  Reconcile_step7_def reconcileDelete_def degraded_exit_def traced_setCondition_def
  reconcileCACertificates_def reconcileClientCertificates_def reconcileDerivedSecrets_def
  createOrUpdateCertificate_def createOrUpdateIssuer_def createOrUpdateSecret_def
  CreateOrUpdate_Certificate_def CreateOrUpdate_Issuer_def mutateCertificate_def mutateIssuer_def
  SetControllerReference_def upsertOwnerRef_def referSameObject_def controllerReference_def
  deleteSecretIfExists_def getCertificateData_def checkAllResourcesReady_def
  isSecretReady_def isCertificateReady_def isIssuerReady_def
  getCertificateSet_def getCertificate_def getIssuer_def getSecret_def getNamespace_def api_get_def
  createCertificate_def updateCertificate_def createIssuer_def updateIssuer_def createSecret_def
  updateSecret_def deleteSecret_def updateCertificateSet_def patchStatus_def request_def
  next_fault_def status_writes_def lookup_def replace_def remove_def meta_key_def
  NewNotFound_def NewAlreadyExists_def kind_text_def quoted_def Errorf_def
  setCondition_def SetStatusCondition_def FindStatusCondition_def merge_condition_def
  ContainsFinalizer_def AddFinalizer_def RemoveFinalizer_def finalizerName_def IsZero_def
  no_requeue_def defaultRequeueAfter_def Second_def
  buildCACertificate_def buildETCDCertificate_def buildProxyCertificate_def buildOIDCCertificate_def
  buildCACertificateWithName_def buildIssuer_def buildSuperAdminCertificate_def buildObjectMeta_def
  copyAnnotationsForChildResource_def issuerObjectReference_def ParseGroupVersion_Group_def
  defaultCAPrivateKey_def caUsages_def no_reference_def empty_meta_def
  CAName_def SuperAdminName_def ETCDName_def ProxyName_def CAOIDCName_def KubeconfigName_def
  ArgoCDClusterName_def suffixCA_def suffixSuperAdmin_def suffixETCD_def suffixProxy_def
  suffixCAOIDC_def suffixKubeconfig_def suffixArgoCDCluster_def AllCertificateNames_def
  isSystemOrInfra_def EnvironmentClient_def EnvironmentSystem_def EnvironmentInfra_def
  ConditionTypeReady_def ConditionTypeProgressing_def ConditionTypeDegraded_def ArgoCDNamespace_def
  CertDuration20Years_def CertDuration1Year_def CertRenewBefore30Days_def Hour_def
  bytes_at_def EncodeToString_def

lemmas example_defs =
  example_set_def infra_set_def argocd_set_def deleting_set_def unmarked_set_def
  stale_certificate_def tls_secret_def registration_secret_def fresh_cluster_def stale_cluster_def
  unmarked_cluster_def failing_update_cluster_def argocd_cluster_def deleting_cluster_def
  converged_set_def created_certificate_def created_cluster_def converged_cluster_def

lemma fresh_run:
  "Reconcile (''ns'', ''x'') fresh_cluster
     = (\<lparr>run_result = \<lparr>Requeue = False, RequeueAfter = 5000000000\<rparr>, run_error = None,
         run_conditions = []\<rparr>,
        created_cluster\<lparr>calls :=
          [Call Get KCertificateSet (''ns'', ''x''), Call Get KCertificate (''ns'', ''x-ca''),
           Call Create KCertificate (''ns'', ''x-ca''), Call Get KSecret (''ns'', ''x-ca'')]\<rparr>)"
  by (simp add: model_defs example_defs Let_def)

lemma stale_run:
  "Reconcile (''ns'', ''x'') stale_cluster
     = (\<lparr>run_result = \<lparr>Requeue = False, RequeueAfter = 0\<rparr>, run_error = None,
         run_conditions =
           [SetCondition ''Ready'' ConditionTrue ''AllResourcesReady''
              ''All certificate resources created and ready'' True,
            SetCondition ''Degraded'' ConditionFalse ''Healthy'' ''No errors'' True,
            SetCondition ''Progressing'' ConditionFalse ''Complete''
              ''Reconciliation complete'' True]\<rparr>,
        converged_cluster\<lparr>calls :=
          [Call Get KCertificateSet (''ns'', ''x''), Call Get KCertificate (''ns'', ''x-ca''),
           Call Update KCertificate (''ns'', ''x-ca''), Call Get KSecret (''ns'', ''x-ca''),
           Call Get KSecret (''beget-argocd'', ''x-argocd-cluster''),
           Call Get KCertificate (''ns'', ''x-ca''),
           Call PatchStatus KCertificateSet (''ns'', ''x'')]\<rparr>)"
  by (simp add: model_defs example_defs Let_def)

lemma converged_run:
  "Reconcile (''ns'', ''x'') converged_cluster
     = (\<lparr>run_result = \<lparr>Requeue = False, RequeueAfter = 0\<rparr>, run_error = None,
         run_conditions =
           [SetCondition ''Ready'' ConditionTrue ''AllResourcesReady''
              ''All certificate resources created and ready'' False,
            SetCondition ''Degraded'' ConditionFalse ''Healthy'' ''No errors'' False,
            SetCondition ''Progressing'' ConditionFalse ''Complete''
              ''Reconciliation complete'' False]\<rparr>,
        converged_cluster\<lparr>calls :=
          [Call Get KCertificateSet (''ns'', ''x''), Call Get KCertificate (''ns'', ''x-ca''),
           Call Get KSecret (''ns'', ''x-ca''),
           Call Get KSecret (''beget-argocd'', ''x-argocd-cluster''),
           Call Get KCertificate (''ns'', ''x-ca''),
           Call PatchStatus KCertificateSet (''ns'', ''x'')]\<rparr>)"
  by (simp add: model_defs example_defs Let_def)


subsection \<open>What each operation leaves alone\<close>

lemma next_fault_not_found [simp]: "next_fault w = Some e \<Longrightarrow> \<not> IsNotFound e"
  by (auto simp: next_fault_def split: list.splits)

lemma api_get_frame [simp]:
  "certificateSets (snd (api_get k st key w)) = certificateSets w"
  "certificates (snd (api_get k st key w)) = certificates w"
  "issuers (snd (api_get k st key w)) = issuers w"
  "secrets (snd (api_get k st key w)) = secrets w"
  "namespaces (snd (api_get k st key w)) = namespaces w"
  "clock (snd (api_get k st key w)) = clock w"
  "status_writes (snd (api_get k st key w)) = status_writes w"
  by (simp_all add: api_get_def request_def status_writes_def split: option.splits)

lemma getNamespace_frame [simp]:
  "certificateSets (snd (getNamespace n w)) = certificateSets w"
  "certificates (snd (getNamespace n w)) = certificates w"
  "issuers (snd (getNamespace n w)) = issuers w"
  "secrets (snd (getNamespace n w)) = secrets w"
  "namespaces (snd (getNamespace n w)) = namespaces w"
  "clock (snd (getNamespace n w)) = clock w"
  "status_writes (snd (getNamespace n w)) = status_writes w"
  by (simp_all add: getNamespace_def request_def status_writes_def split: option.splits)

lemma createCertificate_frame [simp]:
  "certificateSets (snd (createCertificate obj w)) = certificateSets w"
  "issuers (snd (createCertificate obj w)) = issuers w"
  "secrets (snd (createCertificate obj w)) = secrets w"
  "namespaces (snd (createCertificate obj w)) = namespaces w"
  "clock (snd (createCertificate obj w)) = clock w"
  "status_writes (snd (createCertificate obj w)) = status_writes w"
  by (simp_all add: createCertificate_def request_def status_writes_def split: option.splits)

lemma updateCertificate_frame [simp]:
  "certificateSets (snd (updateCertificate obj w)) = certificateSets w"
  "issuers (snd (updateCertificate obj w)) = issuers w"
  "secrets (snd (updateCertificate obj w)) = secrets w"
  "namespaces (snd (updateCertificate obj w)) = namespaces w"
  "clock (snd (updateCertificate obj w)) = clock w"
  "status_writes (snd (updateCertificate obj w)) = status_writes w"
  by (simp_all add: updateCertificate_def request_def status_writes_def split: option.splits)

lemma createIssuer_frame [simp]:
  "certificateSets (snd (createIssuer obj w)) = certificateSets w"
  "certificates (snd (createIssuer obj w)) = certificates w"
  "secrets (snd (createIssuer obj w)) = secrets w"
  "namespaces (snd (createIssuer obj w)) = namespaces w"
  "clock (snd (createIssuer obj w)) = clock w"
  "status_writes (snd (createIssuer obj w)) = status_writes w"
  by (simp_all add: createIssuer_def request_def status_writes_def split: option.splits)

lemma updateIssuer_frame [simp]:
  "certificateSets (snd (updateIssuer obj w)) = certificateSets w"
  "certificates (snd (updateIssuer obj w)) = certificates w"
  "secrets (snd (updateIssuer obj w)) = secrets w"
  "namespaces (snd (updateIssuer obj w)) = namespaces w"
  "clock (snd (updateIssuer obj w)) = clock w"
  "status_writes (snd (updateIssuer obj w)) = status_writes w"
  by (simp_all add: updateIssuer_def request_def status_writes_def split: option.splits)

lemma createSecret_frame [simp]:
  "certificateSets (snd (createSecret obj w)) = certificateSets w"
  "certificates (snd (createSecret obj w)) = certificates w"
  "issuers (snd (createSecret obj w)) = issuers w"
  "namespaces (snd (createSecret obj w)) = namespaces w"
  "clock (snd (createSecret obj w)) = clock w"
  "status_writes (snd (createSecret obj w)) = status_writes w"
  by (simp_all add: createSecret_def request_def status_writes_def split: option.splits)

lemma updateSecret_frame [simp]:
  "certificateSets (snd (updateSecret obj w)) = certificateSets w"
  "certificates (snd (updateSecret obj w)) = certificates w"
  "issuers (snd (updateSecret obj w)) = issuers w"
  "namespaces (snd (updateSecret obj w)) = namespaces w"
  "clock (snd (updateSecret obj w)) = clock w"
  "status_writes (snd (updateSecret obj w)) = status_writes w"
  by (simp_all add: updateSecret_def request_def status_writes_def split: option.splits)

lemma deleteSecret_frame [simp]:
  "certificateSets (snd (deleteSecret obj w)) = certificateSets w"
  "certificates (snd (deleteSecret obj w)) = certificates w"
  "issuers (snd (deleteSecret obj w)) = issuers w"
  "namespaces (snd (deleteSecret obj w)) = namespaces w"
  "clock (snd (deleteSecret obj w)) = clock w"
  "status_writes (snd (deleteSecret obj w)) = status_writes w"
  by (simp_all add: deleteSecret_def request_def status_writes_def split: option.splits)

lemma updateCertificateSet_frame [simp]:
  "certificates (snd (updateCertificateSet cs w)) = certificates w"
  "issuers (snd (updateCertificateSet cs w)) = issuers w"
  "secrets (snd (updateCertificateSet cs w)) = secrets w"
  "namespaces (snd (updateCertificateSet cs w)) = namespaces w"
  "clock (snd (updateCertificateSet cs w)) = clock w"
  "status_writes (snd (updateCertificateSet cs w)) = status_writes w"
  by (simp_all add: updateCertificateSet_def request_def status_writes_def split: option.splits)

lemma patchStatus_frame [simp]:
  "certificates (snd (patchStatus cs orig w)) = certificates w"
  "issuers (snd (patchStatus cs orig w)) = issuers w"
  "secrets (snd (patchStatus cs orig w)) = secrets w"
  "namespaces (snd (patchStatus cs orig w)) = namespaces w"
  "clock (snd (patchStatus cs orig w)) = clock w"
  by (simp_all add: patchStatus_def request_def status_writes_def split: option.splits)

lemma getCertificateSet_frame [simp]:
  "certificateSets (snd (getCertificateSet key w)) = certificateSets w"
  "certificates (snd (getCertificateSet key w)) = certificates w"
  "issuers (snd (getCertificateSet key w)) = issuers w"
  "secrets (snd (getCertificateSet key w)) = secrets w"
  "namespaces (snd (getCertificateSet key w)) = namespaces w"
  "clock (snd (getCertificateSet key w)) = clock w"
  "status_writes (snd (getCertificateSet key w)) = status_writes w"
  by (simp_all add: getCertificateSet_def)

lemma getCertificate_frame [simp]:
  "certificateSets (snd (getCertificate key w)) = certificateSets w"
  "certificates (snd (getCertificate key w)) = certificates w"
  "issuers (snd (getCertificate key w)) = issuers w"
  "secrets (snd (getCertificate key w)) = secrets w"
  "namespaces (snd (getCertificate key w)) = namespaces w"
  "clock (snd (getCertificate key w)) = clock w"
  "status_writes (snd (getCertificate key w)) = status_writes w"
  by (simp_all add: getCertificate_def)

lemma getIssuer_frame [simp]:
  "certificateSets (snd (getIssuer key w)) = certificateSets w"
  "certificates (snd (getIssuer key w)) = certificates w"
  "issuers (snd (getIssuer key w)) = issuers w"
  "secrets (snd (getIssuer key w)) = secrets w"
  "namespaces (snd (getIssuer key w)) = namespaces w"
  "clock (snd (getIssuer key w)) = clock w"
  "status_writes (snd (getIssuer key w)) = status_writes w"
  by (simp_all add: getIssuer_def)

lemma getSecret_frame [simp]:
  "certificateSets (snd (getSecret key w)) = certificateSets w"
  "certificates (snd (getSecret key w)) = certificates w"
  "issuers (snd (getSecret key w)) = issuers w"
  "secrets (snd (getSecret key w)) = secrets w"
  "namespaces (snd (getSecret key w)) = namespaces w"
  "clock (snd (getSecret key w)) = clock w"
  "status_writes (snd (getSecret key w)) = status_writes w"
  by (simp_all add: getSecret_def)

lemma createOrUpdateCertificate_frame [simp]:
  "certificateSets (snd (createOrUpdateCertificate cs d w)) = certificateSets w"
  "issuers (snd (createOrUpdateCertificate cs d w)) = issuers w"
  "secrets (snd (createOrUpdateCertificate cs d w)) = secrets w"
  "namespaces (snd (createOrUpdateCertificate cs d w)) = namespaces w"
  "clock (snd (createOrUpdateCertificate cs d w)) = clock w"
  "status_writes (snd (createOrUpdateCertificate cs d w)) = status_writes w"
  by (simp_all add: createOrUpdateCertificate_def CreateOrUpdate_Certificate_def case_prod_beta Let_def split: option.splits sum.splits)

lemma createOrUpdateIssuer_frame [simp]:
  "certificateSets (snd (createOrUpdateIssuer cs d w)) = certificateSets w"
  "certificates (snd (createOrUpdateIssuer cs d w)) = certificates w"
  "secrets (snd (createOrUpdateIssuer cs d w)) = secrets w"
  "namespaces (snd (createOrUpdateIssuer cs d w)) = namespaces w"
  "clock (snd (createOrUpdateIssuer cs d w)) = clock w"
  "status_writes (snd (createOrUpdateIssuer cs d w)) = status_writes w"
  by (simp_all add: createOrUpdateIssuer_def CreateOrUpdate_Issuer_def case_prod_beta Let_def split: option.splits sum.splits)

lemma createOrUpdateSecret_frame [simp]:
  "certificateSets (snd (createOrUpdateSecret d ks w)) = certificateSets w"
  "certificates (snd (createOrUpdateSecret d ks w)) = certificates w"
  "issuers (snd (createOrUpdateSecret d ks w)) = issuers w"
  "namespaces (snd (createOrUpdateSecret d ks w)) = namespaces w"
  "clock (snd (createOrUpdateSecret d ks w)) = clock w"
  "status_writes (snd (createOrUpdateSecret d ks w)) = status_writes w"
  by (simp_all add: createOrUpdateSecret_def case_prod_beta Let_def split: option.splits sum.splits)

lemma deleteSecretIfExists_frame [simp]:
  "certificateSets (snd (deleteSecretIfExists key w)) = certificateSets w"
  "certificates (snd (deleteSecretIfExists key w)) = certificates w"
  "issuers (snd (deleteSecretIfExists key w)) = issuers w"
  "namespaces (snd (deleteSecretIfExists key w)) = namespaces w"
  "clock (snd (deleteSecretIfExists key w)) = clock w"
  "status_writes (snd (deleteSecretIfExists key w)) = status_writes w"
  by (simp_all add: deleteSecretIfExists_def case_prod_beta Let_def split: option.splits sum.splits)

lemma isSecretReady_frame [simp]:
  "certificateSets (snd (isSecretReady key w)) = certificateSets w"
  "certificates (snd (isSecretReady key w)) = certificates w"
  "issuers (snd (isSecretReady key w)) = issuers w"
  "secrets (snd (isSecretReady key w)) = secrets w"
  "namespaces (snd (isSecretReady key w)) = namespaces w"
  "clock (snd (isSecretReady key w)) = clock w"
  "status_writes (snd (isSecretReady key w)) = status_writes w"
  by (simp_all add: isSecretReady_def case_prod_beta Let_def split: option.splits sum.splits)

lemma isCertificateReady_frame [simp]:
  "certificateSets (snd (isCertificateReady key w)) = certificateSets w"
  "certificates (snd (isCertificateReady key w)) = certificates w"
  "issuers (snd (isCertificateReady key w)) = issuers w"
  "secrets (snd (isCertificateReady key w)) = secrets w"
  "namespaces (snd (isCertificateReady key w)) = namespaces w"
  "clock (snd (isCertificateReady key w)) = clock w"
  "status_writes (snd (isCertificateReady key w)) = status_writes w"
  by (simp_all add: isCertificateReady_def case_prod_beta Let_def split: option.splits sum.splits)

lemma isIssuerReady_frame [simp]:
  "certificateSets (snd (isIssuerReady key w)) = certificateSets w"
  "certificates (snd (isIssuerReady key w)) = certificates w"
  "issuers (snd (isIssuerReady key w)) = issuers w"
  "secrets (snd (isIssuerReady key w)) = secrets w"
  "namespaces (snd (isIssuerReady key w)) = namespaces w"
  "clock (snd (isIssuerReady key w)) = clock w"
  "status_writes (snd (isIssuerReady key w)) = status_writes w"
  by (simp_all add: isIssuerReady_def case_prod_beta Let_def split: option.splits sum.splits)

lemma getCertificateData_frame [simp]:
  "certificateSets (snd (getCertificateData key w)) = certificateSets w"
  "certificates (snd (getCertificateData key w)) = certificates w"
  "issuers (snd (getCertificateData key w)) = issuers w"
  "secrets (snd (getCertificateData key w)) = secrets w"
  "namespaces (snd (getCertificateData key w)) = namespaces w"
  "clock (snd (getCertificateData key w)) = clock w"
  "status_writes (snd (getCertificateData key w)) = status_writes w"
  by (simp_all add: getCertificateData_def case_prod_beta Let_def split: option.splits sum.splits)

lemma reconcileCACertificates_frame [simp]:
  "certificateSets (snd (reconcileCACertificates cs w)) = certificateSets w"
  "issuers (snd (reconcileCACertificates cs w)) = issuers w"
  "secrets (snd (reconcileCACertificates cs w)) = secrets w"
  "namespaces (snd (reconcileCACertificates cs w)) = namespaces w"
  "clock (snd (reconcileCACertificates cs w)) = clock w"
  "status_writes (snd (reconcileCACertificates cs w)) = status_writes w"
  by (simp_all add: reconcileCACertificates_def case_prod_beta Let_def split: option.splits sum.splits)

lemma reconcileClientCertificates_frame [simp]:
  "certificateSets (snd (reconcileClientCertificates cs w)) = certificateSets w"
  "secrets (snd (reconcileClientCertificates cs w)) = secrets w"
  "namespaces (snd (reconcileClientCertificates cs w)) = namespaces w"
  "clock (snd (reconcileClientCertificates cs w)) = clock w"
  "status_writes (snd (reconcileClientCertificates cs w)) = status_writes w"
  by (simp_all add: reconcileClientCertificates_def case_prod_beta Let_def split: option.splits sum.splits)

lemma reconcileDerivedSecrets_frame [simp]:
  "certificateSets (snd (reconcileDerivedSecrets cs cd w)) = certificateSets w"
  "certificates (snd (reconcileDerivedSecrets cs cd w)) = certificates w"
  "issuers (snd (reconcileDerivedSecrets cs cd w)) = issuers w"
  "namespaces (snd (reconcileDerivedSecrets cs cd w)) = namespaces w"
  "clock (snd (reconcileDerivedSecrets cs cd w)) = clock w"
  "status_writes (snd (reconcileDerivedSecrets cs cd w)) = status_writes w"
  by (simp_all add: reconcileDerivedSecrets_def case_prod_beta Let_def split: option.splits sum.splits)

lemma checkCertificates_frame [simp]:
  "certificateSets (snd (checkCertificates ns names w)) = certificateSets w"
  "certificates (snd (checkCertificates ns names w)) = certificates w"
  "issuers (snd (checkCertificates ns names w)) = issuers w"
  "secrets (snd (checkCertificates ns names w)) = secrets w"
  "namespaces (snd (checkCertificates ns names w)) = namespaces w"
  "clock (snd (checkCertificates ns names w)) = clock w"
  "status_writes (snd (checkCertificates ns names w)) = status_writes w"
  by (induction names arbitrary: w; simp add: case_prod_beta split: option.splits)+

lemma checkAllResourcesReady_frame [simp]:
  "certificateSets (snd (checkAllResourcesReady cs w)) = certificateSets w"
  "certificates (snd (checkAllResourcesReady cs w)) = certificates w"
  "issuers (snd (checkAllResourcesReady cs w)) = issuers w"
  "secrets (snd (checkAllResourcesReady cs w)) = secrets w"
  "namespaces (snd (checkAllResourcesReady cs w)) = namespaces w"
  "clock (snd (checkAllResourcesReady cs w)) = clock w"
  "status_writes (snd (checkAllResourcesReady cs w)) = status_writes w"
  by (simp_all add: checkAllResourcesReady_def case_prod_beta Let_def split: option.splits sum.splits)

lemma patchStatus_status_writes [simp]:
  "status_writes (snd (patchStatus cs orig w))
     = status_writes w @ [Call PatchStatus KCertificateSet (meta_key (cs_meta cs))]"
  by (simp add: patchStatus_def request_def status_writes_def split: option.splits)

lemma degraded_exit_result:
  "fst (degraded_exit reason e cs orig w)
     = \<lparr>run_result = no_requeue, run_error = Some e,
        run_conditions = [SetCondition ConditionTypeDegraded ConditionTrue reason (Error_text e)
          (fst (setCondition (clock w) cs ConditionTypeDegraded ConditionTrue reason (Error_text e)))]\<rparr>
   \<and> status_writes (snd (degraded_exit reason e cs orig w))
       = status_writes w @ [Call PatchStatus KCertificateSet (meta_key (cs_meta cs))]"
  by (simp add: degraded_exit_def case_prod_beta Let_def)

lemma degraded_exit_frame [simp]:
  "certificates (snd (degraded_exit r e cs orig w)) = certificates w"
  "issuers (snd (degraded_exit r e cs orig w)) = issuers w"
  "secrets (snd (degraded_exit r e cs orig w)) = secrets w"
  by (simp_all add: degraded_exit_def case_prod_beta Let_def)

lemma Reconcile_step7_frame [simp]:
  "certificates (snd (Reconcile_step7 cs orig w)) = certificates w"
  "issuers (snd (Reconcile_step7 cs orig w)) = issuers w"
  "secrets (snd (Reconcile_step7 cs orig w)) = secrets w"
  by (simp_all add: Reconcile_step7_def case_prod_beta Let_def split: option.splits)

lemma Reconcile_step6_frame [simp]:
  "certificates (snd (Reconcile_step6 cs orig w)) = certificates w"
  "issuers (snd (Reconcile_step6 cs orig w)) = issuers w"
  "secrets (snd (Reconcile_step6 cs orig w)) = secrets w"
  by (simp_all add: Reconcile_step6_def case_prod_beta Let_def split: option.splits)

lemma Reconcile_cleanup_frame [simp]:
  "certificates (snd (Reconcile_cleanup cs orig w)) = certificates w"
  "issuers (snd (Reconcile_cleanup cs orig w)) = issuers w"
  by (simp_all add: Reconcile_cleanup_def case_prod_beta Let_def split: option.splits)

lemma degraded_exit_not_ready [simp]: "\<not> sets_ready (fst (degraded_exit reason e cs orig w))"
  by (simp add: degraded_exit_result)

lemma reconcileDelete_conditions [simp]: "run_conditions (fst (reconcileDelete cs w)) = []"
  by (simp add: reconcileDelete_def case_prod_beta Let_def split: option.splits)

subsection \<open>Looking objects up\<close>

lemma lookup_key: "lookup m xs k = Some x \<Longrightarrow> meta_key (m x) = k"
  by (induction xs) (auto simp: lookup_def split: if_splits)

lemma lookup_append:
  "lookup m (xs @ [x]) k =
     (case lookup m xs k of Some y \<Rightarrow> Some y
      | None \<Rightarrow> if meta_key (m x) = k then Some x else None)"
  by (induction xs) (auto simp: lookup_def)

lemma lookup_replace:
  "lookup m (replace m obj xs) k =
     (if k = meta_key (m obj) then map_option (\<lambda>old. obj) (lookup m xs k) else lookup m xs k)"
  by (induction xs) (auto simp: lookup_def replace_def)


lemma replace_same: "lookup m xs (meta_key (m obj)) = Some obj \<Longrightarrow> replace m obj xs = xs"
  unfolding lookup_def replace_def by (rule update_first_same) auto

lemma readyCondition_find:
  "readyCondition conds =
     (case find (\<lambda>c. cm_type c = ''Ready'') conds of
        None \<Rightarrow> False | Some c \<Rightarrow> cm_status c = ConditionTrue)"
  by (induction conds) auto

lemma api_get_Inr:
  "api_get k (\<lambda>w. lookup m (st w)) key w = (Inr obj, w1) \<Longrightarrow> (\<And>w. st (snd (request Get k key w)) = st w) \<Longrightarrow>
     next_fault w = None \<and> lookup m (st w) key = Some obj \<and> meta_key (m obj) = key
     \<and> w1 = w\<lparr>faults := drop 1 (faults w), calls := calls w @ [Call Get k key]\<rparr>"
  by (auto simp: api_get_def request_def lookup_key split: option.splits)

lemma getCertificateSet_Inr:
  "getCertificateSet req w = (Inr cs, w1) \<Longrightarrow>
     next_fault w = None \<and> certificateSetAt w req = Some cs \<and> meta_key (cs_meta cs) = req
     \<and> w1 = w\<lparr>faults := drop 1 (faults w), calls := calls w @ [Call Get KCertificateSet req]\<rparr>"
  unfolding getCertificateSet_def by (rule api_get_Inr) (simp_all add: request_def)

lemma getSecret_cases:
  "getSecret key w =
     (case next_fault w of
        Some e \<Rightarrow> Inl e
      | None \<Rightarrow> (case secretAt w key of None \<Rightarrow> Inl (NewNotFound KSecret key) | Some s \<Rightarrow> Inr s),
      w\<lparr>faults := drop 1 (faults w), calls := calls w @ [Call Get KSecret key]\<rparr>)"
  by (simp add: getSecret_def api_get_def request_def split: option.splits)

lemma IsNotFound_NewNotFound [simp]: "IsNotFound (NewNotFound k key)"
  by (simp add: NewNotFound_def)



lemma getCertificate_cases:
  "getCertificate key w =
     (case next_fault w of
        Some e \<Rightarrow> Inl e
      | None \<Rightarrow> (case certificateAt w key of None \<Rightarrow> Inl (NewNotFound KCertificate key)
                 | Some c \<Rightarrow> Inr c),
      w\<lparr>faults := drop 1 (faults w), calls := calls w @ [Call Get KCertificate key]\<rparr>)"
  by (simp add: getCertificate_def api_get_def request_def split: option.splits)

lemma patchStatus_empty: "certificateSets (snd (patchStatus cs cs w)) = certificateSets w"
proof (cases "certificateSetAt w (meta_key (cs_meta cs))")
  case None
  then show ?thesis
    by (simp add: patchStatus_def request_def split: option.splits)
next
  case (Some stored)
  then have "meta_key (cs_meta stored) = meta_key (cs_meta cs)"
    by (rule lookup_key)
  with Some have "replace cs_meta stored (certificateSets w) = certificateSets w"
    by (intro replace_same) simp
  with Some show ?thesis
    by (simp add: patchStatus_def request_def split: option.splits)
qed

subsection \<open>Creating or updating a certificate\<close>

lemma SetControllerReference_Inr:
  "SetControllerReference cs m = Inr m' \<Longrightarrow>
     m' = m\<lparr>om_ownerReferences := upsertOwnerRef (controllerReference cs) (om_ownerReferences m)\<rparr>"
  by (auto simp: SetControllerReference_def Let_def split: if_splits option.splits)

lemma mutateCertificate_Inr:
  "mutateCertificate cs d ex = Inr m \<Longrightarrow>
     cert_spec m = cert_spec d \<and> om_labels (cert_meta m) = om_labels (cert_meta d)
     \<and> om_annotations (cert_meta m) = om_annotations (cert_meta d)
     \<and> meta_key (cert_meta m) = meta_key (cert_meta ex)
     \<and> cert_conditions m = cert_conditions ex"
  by (auto simp: mutateCertificate_def meta_key_def split: sum.splits
      dest!: SetControllerReference_Inr)

lemma CreateOrUpdate_Certificate_stores:
  assumes "CreateOrUpdate_Certificate obj (mutateCertificate cs d) w = (None, w1)"
    and "cert_conditions obj = []"
  shows "\<exists>c. certificateAt w1 (meta_key (cert_meta obj)) = Some c
           \<and> cert_spec c = cert_spec d
           \<and> om_labels (cert_meta c) = om_labels (cert_meta d)
           \<and> om_annotations (cert_meta c) = om_annotations (cert_meta d)
           \<and> cert_conditions c
               = (case certificateAt w (meta_key (cert_meta obj)) of
                    None \<Rightarrow> [] | Some old \<Rightarrow> cert_conditions old)"
proof (cases "next_fault w")
  case (Some e)
  with assms show ?thesis
    by (simp add: CreateOrUpdate_Certificate_def getCertificate_cases)
next
  case nf: None
  show ?thesis
  proof (cases "certificateAt w (meta_key (cert_meta obj))")
    case None
    with assms nf show ?thesis
      by (auto simp: CreateOrUpdate_Certificate_def getCertificate_cases createCertificate_def
          request_def lookup_append split: sum.splits option.splits dest!: mutateCertificate_Inr)
  next
    case (Some ex)
    then have k: "meta_key (cert_meta ex) = meta_key (cert_meta obj)"
      by (rule lookup_key)
    from assms nf Some k show ?thesis
      by (auto simp: CreateOrUpdate_Certificate_def getCertificate_cases updateCertificate_def
          request_def lookup_replace split: sum.splits option.splits if_splits
          dest!: mutateCertificate_Inr)
  qed
qed

lemma createOrUpdateCertificate_stores:
  assumes "createOrUpdateCertificate cs d w = (None, w1)"
  shows "\<exists>c. certificateAt w1 (meta_key (cert_meta d)) = Some c
           \<and> cert_spec c = cert_spec d
           \<and> om_labels (cert_meta c) = om_labels (cert_meta d)
           \<and> om_annotations (cert_meta c) = om_annotations (cert_meta d)
           \<and> cert_conditions c
               = (case certificateAt w (meta_key (cert_meta d)) of
                    None \<Rightarrow> [] | Some old \<Rightarrow> cert_conditions old)"
proof -
  let ?blank = "\<lparr>cert_meta = empty_meta\<lparr>om_name := om_name (cert_meta d),
                         om_namespace := om_namespace (cert_meta d)\<rparr>,
                       cert_spec = \<lparr>sp_commonName = [], sp_duration = None, sp_isCA = False,
                         sp_issuerRef = no_reference, sp_privateKey = None,
                         sp_renewBefore = None, sp_secretName = [],
                         sp_secretTemplateLabels = None, sp_subjectOrganizations = None,
                         sp_usages = []\<rparr>,
                       cert_conditions = []\<rparr>"
  have k: "meta_key (cert_meta ?blank) = meta_key (cert_meta d)"
    by (simp add: meta_key_def)
  from assms have "CreateOrUpdate_Certificate ?blank (mutateCertificate cs d) w = (None, w1)"
    by (simp add: createOrUpdateCertificate_def Let_def split: prod.splits option.splits)
  from CreateOrUpdate_Certificate_stores [OF this] show ?thesis
    unfolding k by simp
qed

lemma createOrUpdateCertificate_other:
  assumes "k \<noteq> meta_key (cert_meta d)"
  shows "certificateAt (snd (createOrUpdateCertificate cs d w)) k = certificateAt w k"
proof (cases "certificateAt w (meta_key (cert_meta d))")
  case None
  with assms show ?thesis
    by (auto simp: createOrUpdateCertificate_def CreateOrUpdate_Certificate_def getCertificate_cases
        createCertificate_def updateCertificate_def request_def lookup_append lookup_replace Let_def
        meta_key_def
        split: sum.splits option.splits dest!: mutateCertificate_Inr)
next
  case (Some ex)
  then have "meta_key (cert_meta ex) = meta_key (cert_meta d)"
    by (rule lookup_key)
  with assms Some show ?thesis
    by (auto simp: createOrUpdateCertificate_def CreateOrUpdate_Certificate_def getCertificate_cases
        createCertificate_def updateCertificate_def request_def lookup_append lookup_replace Let_def
        meta_key_def
        split: sum.splits option.splits dest!: mutateCertificate_Inr)
qed

lemma createOrUpdateCertificate_result:
  assumes "fst (createOrUpdateCertificate cs d w) = None"
  shows "\<exists>c. certificateAt (snd (createOrUpdateCertificate cs d w)) (meta_key (cert_meta d)) = Some c
           \<and> cert_spec c = cert_spec d
           \<and> om_labels (cert_meta c) = om_labels (cert_meta d)
           \<and> om_annotations (cert_meta c) = om_annotations (cert_meta d)
           \<and> cert_conditions c
               = (case certificateAt w (meta_key (cert_meta d)) of
                    None \<Rightarrow> [] | Some old \<Rightarrow> cert_conditions old)"
proof -
  from assms have "createOrUpdateCertificate cs d w = (None, snd (createOrUpdateCertificate cs d w))"
    by (metis prod.collapse)
  then show ?thesis by (rule createOrUpdateCertificate_stores)
qed

lemma built_keys [simp]:
  "meta_key (cert_meta (buildCACertificate cs)) = (om_namespace (cs_meta cs), CAName cs)"
  "meta_key (cert_meta (buildETCDCertificate cs)) = (om_namespace (cs_meta cs), ETCDName cs)"
  "meta_key (cert_meta (buildProxyCertificate cs)) = (om_namespace (cs_meta cs), ProxyName cs)"
  "meta_key (cert_meta (buildOIDCCertificate cs)) = (om_namespace (cs_meta cs), CAOIDCName cs)"
  "meta_key (cert_meta (buildSuperAdminCertificate cs n)) = (om_namespace (cs_meta cs), SuperAdminName cs)"
  by (simp_all add: buildCACertificate_def buildETCDCertificate_def buildProxyCertificate_def
      buildOIDCCertificate_def buildSuperAdminCertificate_def buildCACertificateWithName_def
      buildObjectMeta_def meta_key_def empty_meta_def Let_def split: option.splits)

lemma names_differ [simp]:
  "CAName cs \<noteq> ETCDName cs" "CAName cs \<noteq> ProxyName cs" "CAName cs \<noteq> CAOIDCName cs"
  "CAName cs \<noteq> SuperAdminName cs" "KubeconfigName cs \<noteq> ArgoCDClusterName cs"
  by (simp_all add: CAName_def ETCDName_def ProxyName_def CAOIDCName_def SuperAdminName_def
      KubeconfigName_def ArgoCDClusterName_def suffixCA_def suffixETCD_def suffixProxy_def
      suffixCAOIDC_def suffixSuperAdmin_def suffixKubeconfig_def suffixArgoCDCluster_def)

lemma reconcileCACertificates_ca:
  assumes "fst (reconcileCACertificates cs w) = None"
  shows "\<exists>c. certificateAt (snd (reconcileCACertificates cs w)) (om_namespace (cs_meta cs), CAName cs)
               = Some c
           \<and> cert_spec c = cert_spec (buildCACertificate cs)
           \<and> om_labels (cert_meta c) = om_labels (cert_meta (buildCACertificate cs))
           \<and> om_annotations (cert_meta c) = om_annotations (cert_meta (buildCACertificate cs))
           \<and> cert_conditions c
               = (case certificateAt w (om_namespace (cs_meta cs), CAName cs) of
                    None \<Rightarrow> [] | Some old \<Rightarrow> cert_conditions old)"
proof -
  let ?w1 = "snd (createOrUpdateCertificate cs (buildCACertificate cs) w)"
  from assms have ok: "fst (createOrUpdateCertificate cs (buildCACertificate cs) w) = None"
    by (auto simp: reconcileCACertificates_def case_prod_beta split: option.splits)
  have same: "certificateAt (snd (reconcileCACertificates cs w)) (om_namespace (cs_meta cs), CAName cs)
        = certificateAt ?w1 (om_namespace (cs_meta cs), CAName cs)"
    using ok
    by (simp add: reconcileCACertificates_def case_prod_beta createOrUpdateCertificate_other
        split: option.splits)
  from createOrUpdateCertificate_result [OF ok] show ?thesis
    unfolding same by simp
qed

lemma reconcileClientCertificates_ca:
  "certificateAt (snd (reconcileClientCertificates cs w)) (om_namespace (cs_meta cs), CAName cs)
     = certificateAt w (om_namespace (cs_meta cs), CAName cs)"
  by (simp add: reconcileClientCertificates_def case_prod_beta Let_def
      createOrUpdateCertificate_other split: option.splits)

lemma Reconcile_step3_ca:
  "certificateAt (snd (Reconcile_step3 cs orig w)) (om_namespace (cs_meta cs), CAName cs)
     = certificateAt w (om_namespace (cs_meta cs), CAName cs)"
  by (simp add: Reconcile_step3_def case_prod_beta Let_def reconcileClientCertificates_ca
      split: option.splits sum.splits)

subsection \<open>Derived secrets without the ArgoCD namespace\<close>

lemma createOrUpdateSecret_other:
  assumes "k \<noteq> meta_key (sec_meta d)"
  shows "secretAt (snd (createOrUpdateSecret d ks w)) k = secretAt w k"
proof (cases "secretAt w (meta_key (sec_meta d))")
  case None
  with assms show ?thesis
    by (auto simp: createOrUpdateSecret_def getSecret_cases createSecret_def updateSecret_def
        request_def lookup_append lookup_replace split: option.splits)
next
  case (Some ex)
  then have "meta_key (sec_meta ex) = meta_key (sec_meta d)"
    by (rule lookup_key)
  with assms Some show ?thesis
    by (auto simp: createOrUpdateSecret_def getSecret_cases createSecret_def updateSecret_def
        request_def lookup_append lookup_replace split: option.splits)
qed

lemma buildKubeconfigSecret_key:
  "buildKubeconfigSecret cs cd = Inr s \<Longrightarrow> SetControllerReference cs (sec_meta s) = Inr m \<Longrightarrow>
     meta_key m = (om_namespace (cs_meta cs), KubeconfigName cs)"
  by (auto simp: buildKubeconfigSecret_def meta_key_def split: sum.splits
      dest!: SetControllerReference_Inr)

lemma reconcileDerivedSecrets_no_namespace:
  assumes "argocdCluster (cs_spec cs)" and "ArgoCDNamespace \<notin> namespaces w"
  shows "fst (reconcileDerivedSecrets cs cd w) \<noteq> None
     \<and> secretAt (snd (reconcileDerivedSecrets cs cd w)) (ArgoCDNamespace, ArgoCDClusterName cs)
         = secretAt w (ArgoCDNamespace, ArgoCDClusterName cs)"
proof -
  let ?key = "(ArgoCDNamespace, ArgoCDClusterName cs)"
  define kp where "kp =
     (if kubeconfig (cs_spec cs) then
              (case buildKubeconfigSecret cs cd of
                 Inl err \<Rightarrow> (Some (Errorf_w ''failed to build kubeconfig Secret'' err), w)
               | Inr kubeconfigSecret \<Rightarrow>
                   (case SetControllerReference cs (sec_meta kubeconfigSecret) of
                      Inl err \<Rightarrow>
                        (Some (Errorf_w ''failed to set owner reference on kubeconfig Secret'' err), w)
                    | Inr m \<Rightarrow>
                        (case createOrUpdateSecret (kubeconfigSecret\<lparr>sec_meta := m\<rparr>)
                                [''value''] w of
                           (Some err, w1) \<Rightarrow>
                             (Some (Errorf_w ''failed to create kubeconfig Secret'' err), w1)
                         | (None, w1) \<Rightarrow> (None, w1))))
            else (None, w))"
  have other: "secretAt (snd (createOrUpdateSecret (s\<lparr>sec_meta := m\<rparr>) ks w)) ?key
                = secretAt w ?key"
    if "buildKubeconfigSecret cs cd = Inr s" "SetControllerReference cs (sec_meta s) = Inr m"
    for s m ks
    using buildKubeconfigSecret_key [OF that]
    by (intro createOrUpdateSecret_other) (auto simp: names_differ(5) [symmetric])
  have kp_ns: "namespaces (snd kp) = namespaces w"
    by (simp add: kp_def case_prod_beta split: sum.splits option.splits)
  have kp_sec: "secretAt (snd kp) ?key = secretAt w ?key"
    using other by (simp add: kp_def case_prod_beta split: sum.splits option.splits)
  define ap where "ap = (\<lambda>w1.
             (case getNamespace ArgoCDNamespace w1 of
                (Some err, w2) \<Rightarrow>
                  (if IsNotFound err
                   then (Some (Errorf (''ArgoCD namespace '' @ quoted ArgoCDNamespace
                                        @ '' does not exist'')), w2)
                   else (Some (Errorf_w ''failed to check ArgoCD namespace'' err), w2))
              | (None, w2) \<Rightarrow>
                  (case buildArgoCDClusterSecret cs cd of
                     Inl err \<Rightarrow>
                       (Some (Errorf_w ''failed to build ArgoCD cluster Secret'' err), w2)
                   | Inr argocdSecret \<Rightarrow>
                       (case createOrUpdateSecret argocdSecret
                               [''config'', ''name'', ''server''] w2 of
                          (Some err, w3) \<Rightarrow>
                            (Some (Errorf_w ''failed to create ArgoCD cluster Secret'' err), w3)
                        | (None, w3) \<Rightarrow> (None, w3)))))"
  have d: "reconcileDerivedSecrets cs cd w =
     (case kp of
        (Some err, w1) \<Rightarrow> (Some err, w1)
      | (None, w1) \<Rightarrow> (if argocdCluster (cs_spec cs) then ap w1 else (None, w1)))"
    unfolding reconcileDerivedSecrets_def kp_def ap_def by (rule refl)
  have apE: "fst (ap w1) \<noteq> None \<and> secrets (snd (ap w1)) = secrets w1"
    if "fst (getNamespace ArgoCDNamespace w1) \<noteq> None" for w1
    using that by (auto simp: ap_def case_prod_beta split: option.splits)
  have ns: "fst (getNamespace ArgoCDNamespace (snd kp)) \<noteq> None"
    using assms(2) kp_ns by (simp add: getNamespace_def request_def split: option.splits)
  show ?thesis
  proof (cases "fst kp")
    case (Some e)
    then show ?thesis
      unfolding d using kp_sec by (simp add: case_prod_beta)
  next
    case None
    with apE [OF ns] show ?thesis
      unfolding d using kp_sec assms(1) by (simp add: case_prod_beta)
  qed
qed

subsection \<open>The readiness check\<close>

lemma isCertificateReady_cases:
  "isCertificateReady key w =
     (case next_fault w of
        Some e \<Rightarrow> (False, Some e)
      | None \<Rightarrow>
          (case certificateAt w key of
             None \<Rightarrow> (False, None)
           | Some c \<Rightarrow> (readyCondition (cert_conditions c), None)),
      w\<lparr>faults := drop 1 (faults w), calls := calls w @ [Call Get KCertificate key]\<rparr>)"
  by (simp add: isCertificateReady_def getCertificate_cases split: option.splits)






lemma isCertificateReady_false: "fst (isCertificateReady key w) = (ready, Some e) \<Longrightarrow> \<not> ready"
  by (auto simp: isCertificateReady_cases readyCondition_find split: option.splits)



subsection \<open>Runs that reach the last step\<close>

lemma step6_reaches:
  assumes "sets_ready (fst (Reconcile_step6 cs orig w))"
  shows "passes_check cs w w
     \<and> Reconcile_step6 cs orig w = Reconcile_step7 cs orig (snd (checkAllResourcesReady cs w))"
proof -
  obtain ready n err where c: "fst (checkAllResourcesReady cs w) = (ready, n, err)"
    by (cases "fst (checkAllResourcesReady cs w)") auto
  show ?thesis
  proof (cases err)
    case (Some e)
    with assms c show ?thesis
      by (simp add: Reconcile_step6_def case_prod_beta Let_def)
  next
    case None
    with assms c show ?thesis
      by (cases ready) (simp_all add: Reconcile_step6_def case_prod_beta Let_def split: option.splits)
  qed
qed

lemma cleanup_reaches:
  assumes "sets_ready (fst (Reconcile_cleanup cs orig w))"
  shows "\<exists>w5. passes_check cs w w5
     \<and> Reconcile_cleanup cs orig w = Reconcile_step7 cs orig (snd (checkAllResourcesReady cs w5))"
proof (cases "argocdCluster (cs_spec cs)")
  case True
  with assms step6_reaches [of cs orig w] show ?thesis
    by (auto simp: Reconcile_cleanup_def)
next
  case False
  let ?d = "deleteSecretIfExists (ArgoCDNamespace, ArgoCDClusterName cs) w"
  from assms False have d: "fst ?d = None"
    and s: "sets_ready (fst (Reconcile_step6 cs orig (snd ?d)))"
    and R: "Reconcile_cleanup cs orig w = Reconcile_step6 cs orig (snd ?d)"
    by (auto simp: Reconcile_cleanup_def case_prod_beta Let_def split: option.splits)
  from step6_reaches [OF s] show ?thesis
    unfolding R by (intro exI [of _ "snd ?d"]) simp
qed

lemma step3_reaches:
  assumes "sets_ready (fst (Reconcile_step3 cs orig w))"
  shows "\<exists>w5. passes_check cs w w5
     \<and> Reconcile_step3 cs orig w = Reconcile_step7 cs orig (snd (checkAllResourcesReady cs w5))"
proof (cases "kubeconfig (cs_spec cs) \<or> argocdCluster (cs_spec cs)")
  case False
  with assms cleanup_reaches [of cs orig w] show ?thesis
    by (simp add: Reconcile_step3_def)
next
  case True
  let ?w1 = "snd (reconcileClientCertificates cs w)"
  let ?key = "(om_namespace (cs_meta cs), SuperAdminName cs)"
  let ?w2 = "snd (isSecretReady ?key ?w1)"
  let ?w3 = "snd (getCertificateData ?key ?w2)"
  obtain cd where cd: "fst (getCertificateData ?key ?w2) = Inr cd"
    and s: "sets_ready (fst (Reconcile_cleanup cs orig (snd (reconcileDerivedSecrets cs cd ?w3))))"
    and R: "Reconcile_step3 cs orig w
              = Reconcile_cleanup cs orig (snd (reconcileDerivedSecrets cs cd ?w3))"
    using assms True
    by (auto simp: Reconcile_step3_def case_prod_beta Let_def
        split: option.splits sum.splits if_splits)
  from cleanup_reaches [OF s] obtain w5
    where "passes_check cs (snd (reconcileDerivedSecrets cs cd ?w3)) w5"
      and "Reconcile_cleanup cs orig (snd (reconcileDerivedSecrets cs cd ?w3))
             = Reconcile_step7 cs orig (snd (checkAllResourcesReady cs w5))"
    by blast
  then show ?thesis
    unfolding R by (intro exI [of _ w5]) simp
qed

lemma Reconcile_reaches:
  assumes "sets_ready (fst (Reconcile req w))"
  shows "\<exists>cs w5. certificateSetAt w req = Some cs \<and> meta_key (cs_meta cs) = req
     \<and> passes_check cs w w5
     \<and> Reconcile req w = Reconcile_step7 cs cs (snd (checkAllResourcesReady cs w5))"
proof -
  let ?g = "getCertificateSet req w"
  obtain cs where g: "?g = (Inr cs, snd ?g)"
    and s1: "sets_ready (fst (Reconcile_step1 cs (snd ?g)))"
    and R1: "Reconcile req w = Reconcile_step1 cs (snd ?g)"
    using assms
    by (cases "fst ?g")
      (auto simp: Reconcile_def case_prod_beta Let_def prod_eq_iff split: option.splits if_splits)
  from getCertificateSet_Inr [OF g] have at: "certificateSetAt w req = Some cs"
    and k: "meta_key (cs_meta cs) = req"
    by simp_all
  let ?w1 = "snd (reconcileCACertificates cs (snd ?g))"
  let ?w2 = "snd (isSecretReady (om_namespace (cs_meta cs), CAName cs) ?w1)"
  from s1 have s3: "sets_ready (fst (Reconcile_step3 cs cs ?w2))"
    and R3: "Reconcile_step1 cs (snd ?g) = Reconcile_step3 cs cs ?w2"
    by (auto simp: Reconcile_step1_def case_prod_beta Let_def split: option.splits if_splits)
  from step3_reaches [OF s3] obtain w5 where "passes_check cs ?w2 w5"
    and "Reconcile_step3 cs cs ?w2 = Reconcile_step7 cs cs (snd (checkAllResourcesReady cs w5))"
    by blast
  then show ?thesis
    unfolding R1 R3 using at k by (intro exI [of _ cs] exI [of _ w5]) simp
qed


subsection \<open>The condition manager\<close>

text \<open>
  C6. \<open>setCondition\<close> returns false and leaves the condition list as it is exactly when
  the first condition of the type already has the given status, reason and message and
  is stamped with the object's generation; then the whole object is unchanged. Otherwise
  it returns true, and afterwards the first condition of the type has the given status,
  reason and message and the object's generation. Metadata and spec are never touched.
  The function has no access to the store: it makes no persistence call.
\<close>

theorem setCondition_contract:
  "((fst (setCondition now cs t s r m) = False
       \<and> cs_conditions (snd (setCondition now cs t s r m)) = cs_conditions cs)
      = (\<exists>c. FindStatusCondition (cs_conditions cs) t = Some c \<and> c_status c = s
              \<and> c_reason c = r \<and> c_message c = m
              \<and> c_observedGeneration c = om_generation (cs_meta cs)))
   \<and> (if fst (setCondition now cs t s r m)
      then (\<exists>c. FindStatusCondition (cs_conditions (snd (setCondition now cs t s r m))) t = Some c
              \<and> c_status c = s \<and> c_reason c = r \<and> c_message c = m
              \<and> c_observedGeneration c = om_generation (cs_meta cs))
      else snd (setCondition now cs t s r m) = cs)
   \<and> cs_meta (snd (setCondition now cs t s r m)) = cs_meta cs
   \<and> cs_spec (snd (setCondition now cs t s r m)) = cs_spec cs"
  using FindStatusCondition_Set [of now "cs_conditions cs"
      "\<lparr>c_type = t, c_status = s, c_observedGeneration = om_generation (cs_meta cs),
        c_lastTransitionTime = 0, c_reason = r, c_message = m\<rparr>"]
  by (auto simp: setCondition_def split: option.splits)

theorem setCondition_contract_witness:
  "fst (setCondition 7 example_set ''Ready'' ConditionTrue ''AllResourcesReady'' ''done'') = True
   \<and> cs_conditions (snd (setCondition 7 example_set ''Ready'' ConditionTrue
                            ''AllResourcesReady'' ''done''))
     = [\<lparr>c_type = ''Ready'', c_status = ConditionTrue, c_observedGeneration = 1,
          c_lastTransitionTime = 7, c_reason = ''AllResourcesReady'', c_message = ''done''\<rparr>]
   \<and> fst (setCondition 8
            (snd (setCondition 7 example_set ''Ready'' ConditionTrue ''AllResourcesReady'' ''done''))
            ''Ready'' ConditionTrue ''AllResourcesReady'' ''done'') = False"
  using setCondition_contract [of 7 example_set "''Ready''" ConditionTrue
      "''AllResourcesReady''" "''done''"]
  by (simp add: setCondition_def SetStatusCondition_def FindStatusCondition_def
      example_set_def empty_meta_def)

subsection \<open>The OIDC certificate\<close>

text \<open>
  C10. For the infra environment and no \<open>issuerRefOidc\<close>, \<open>buildOIDCCertificate\<close>
  returns a certificate (the builder has no error result) whose issuer reference has
  empty group, kind and name, with \<open>IsCA\<close> false and no usages.
\<close>

theorem buildOIDCCertificate_infra_nil:
  "environment (cs_spec cs) = EnvironmentInfra \<Longrightarrow> issuerRefOidc (cs_spec cs) = None \<Longrightarrow>
     sp_issuerRef (cert_spec (buildOIDCCertificate cs))
       = \<lparr>ref_group = [], ref_kind = [], ref_name = []\<rparr>
     \<and> sp_isCA (cert_spec (buildOIDCCertificate cs)) = False
     \<and> sp_usages (cert_spec (buildOIDCCertificate cs)) = []
     \<and> om_name (cert_meta (buildOIDCCertificate cs)) = CAOIDCName cs"
  by (simp add: buildOIDCCertificate_def Let_def EnvironmentInfra_def EnvironmentSystem_def
      no_reference_def buildObjectMeta_def)

theorem buildOIDCCertificate_infra_nil_witness:
  "environment (cs_spec infra_set) = ''infra'' \<and> issuerRefOidc (cs_spec infra_set) = None
   \<and> sp_issuerRef (cert_spec (buildOIDCCertificate infra_set))
       = \<lparr>ref_group = [], ref_kind = [], ref_name = []\<rparr>
   \<and> sp_isCA (cert_spec (buildOIDCCertificate infra_set)) = False
   \<and> om_name (cert_meta (buildOIDCCertificate infra_set)) = ''x-ca-oidc''"
  using buildOIDCCertificate_infra_nil [of infra_set]
  by (simp add: infra_set_def example_set_def EnvironmentInfra_def CAOIDCName_def
      suffixCAOIDC_def empty_meta_def)


subsection \<open>Readiness\<close>

text \<open>
  C7. Each readiness function makes one lookup. When the lookup fails in transport, the
  failure (never a not-found error) is returned with false. Otherwise an absent resource
  gives false with no error; a present secret is ready exactly when it has the three
  keys \<open>ca.crt\<close>, \<open>tls.crt\<close> and \<open>tls.key\<close>; a present certificate or issuer is ready
  exactly when its first condition of type Ready has status True, and is not ready,
  with no error, when it has no such condition.
\<close>

theorem readiness_oracles:
  "fst (isSecretReady key w) =
     (case next_fault w of
        Some e \<Rightarrow> (False, Some e)
      | None \<Rightarrow>
          (case secretAt w key of
             None \<Rightarrow> (False, None)
           | Some s \<Rightarrow>
               (Mapping.lookup (sec_data s) ''ca.crt'' \<noteq> None
                \<and> Mapping.lookup (sec_data s) ''tls.crt'' \<noteq> None
                \<and> Mapping.lookup (sec_data s) ''tls.key'' \<noteq> None, None)))
   \<and> fst (isCertificateReady key w) =
     (case next_fault w of
        Some e \<Rightarrow> (False, Some e)
      | None \<Rightarrow>
          (case certificateAt w key of
             None \<Rightarrow> (False, None)
           | Some c \<Rightarrow>
               (case find (\<lambda>cond. cm_type cond = ''Ready'') (cert_conditions c) of
                  None \<Rightarrow> (False, None)
                | Some cond \<Rightarrow> (cm_status cond = ConditionTrue, None))))
   \<and> fst (isIssuerReady key w) =
     (case next_fault w of
        Some e \<Rightarrow> (False, Some e)
      | None \<Rightarrow>
          (case issuerAt w key of
             None \<Rightarrow> (False, None)
           | Some i \<Rightarrow>
               (case find (\<lambda>cond. cm_type cond = ''Ready'') (iss_conditions i) of
                  None \<Rightarrow> (False, None)
                | Some cond \<Rightarrow> (cm_status cond = ConditionTrue, None))))
   \<and> (case next_fault w of Some e \<Rightarrow> \<not> IsNotFound e | None \<Rightarrow> True)"
  by (simp add: isSecretReady_def isCertificateReady_def isIssuerReady_def getSecret_def
      getCertificate_def getIssuer_def api_get_def request_def readyCondition_find
      NewNotFound_def Let_def split: option.splits)

theorem readiness_oracles_witness:
  "fst (isSecretReady (''ns'', ''x-ca'') stale_cluster) = (True, None)
   \<and> fst (isSecretReady (''ns'', ''x-ca'') fresh_cluster) = (False, None)
   \<and> fst (isCertificateReady (''ns'', ''x-ca'') stale_cluster) = (True, None)
   \<and> fst (isCertificateReady (''ns'', ''x-ca'') (snd (Reconcile (''ns'', ''x'') fresh_cluster)))
       = (False, None)
   \<and> fst (isIssuerReady (''ns'', ''x-ca'') (stale_cluster\<lparr>faults := [Some ''timeout'']\<rparr>))
       = (False, Some (Error Other ''timeout''))"
  using readiness_oracles [of "(''ns'', ''x-ca'')" stale_cluster]
    readiness_oracles [of "(''ns'', ''x-ca'')" fresh_cluster]
    readiness_oracles [of "(''ns'', ''x-ca'')" "snd (Reconcile (''ns'', ''x'') fresh_cluster)"]
    readiness_oracles [of "(''ns'', ''x-ca'')" "stale_cluster\<lparr>faults := [Some ''timeout'']\<rparr>"]
  by (simp add: model_defs example_defs Let_def)

subsection \<open>The finalizer\<close>

text \<open>
  C9 (amended). When the fetched CertificateSet is not being deleted and lacks the
  cleanup finalizer, the run makes exactly two client calls, the get and the update
  that attaches the finalizer: no child is created, read or changed, no condition is set
  and no status is written. When the update succeeds the run asks for an immediate
  requeue and the stored object carries the finalizer; when the update fails, the run
  returns that error with no requeue request and the stored object is unchanged.
\<close>

theorem finalizer_attached_first:
  assumes "getCertificateSet req w = (Inr cs, w1)"
    and "IsZero (om_deletionTimestamp (cs_meta cs))"
    and "\<not> ContainsFinalizer cs finalizerName"
  shows "calls (snd (Reconcile req w))
           = calls w @ [Call Get KCertificateSet req, Call Update KCertificateSet req]
     \<and> run_conditions (fst (Reconcile req w)) = []
     \<and> certificates (snd (Reconcile req w)) = certificates w
     \<and> issuers (snd (Reconcile req w)) = issuers w
     \<and> secrets (snd (Reconcile req w)) = secrets w
     \<and> (case next_fault w1 of
          Some e \<Rightarrow>
            fst (Reconcile req w)
              = \<lparr>run_result = no_requeue, run_error = Some e, run_conditions = []\<rparr>
            \<and> certificateSets (snd (Reconcile req w)) = certificateSets w
        | None \<Rightarrow>
            fst (Reconcile req w)
              = \<lparr>run_result = \<lparr>Requeue = True, RequeueAfter = 0\<rparr>, run_error = None,
                 run_conditions = []\<rparr>
            \<and> map_option (\<lambda>stored. om_finalizers (cs_meta stored))
                 (certificateSetAt (snd (Reconcile req w)) req)
              = Some (om_finalizers (cs_meta cs) @ [finalizerName]))"
proof -
  from assms(1) have g: "next_fault w = None" "certificateSetAt w req = Some cs"
    "meta_key (cs_meta cs) = req"
    "w1 = w\<lparr>faults := drop 1 (faults w), calls := calls w @ [Call Get KCertificateSet req]\<rparr>"
    by (auto dest: getCertificateSet_Inr)
  have k: "meta_key (cs_meta (AddFinalizer cs finalizerName)) = req"
    using g(3) by (simp add: AddFinalizer_def meta_key_def)
  show ?thesis
    using assms g(2,3) k unfolding g(4)
    by (simp add: Reconcile_def updateCertificateSet_def request_def lookup_replace
        AddFinalizer_def ContainsFinalizer_def meta_key_def split: option.splits)
qed

theorem finalizer_attached_first_witness:
  "fst (getCertificateSet (''ns'', ''x'') unmarked_cluster) = Inr unmarked_set
   \<and> IsZero (om_deletionTimestamp (cs_meta unmarked_set))
   \<and> \<not> ContainsFinalizer unmarked_set finalizerName
   \<and> calls (snd (Reconcile (''ns'', ''x'') unmarked_cluster))
       = [Call Get KCertificateSet (''ns'', ''x''), Call Update KCertificateSet (''ns'', ''x'')]
   \<and> fst (Reconcile (''ns'', ''x'') unmarked_cluster)
       = \<lparr>run_result = \<lparr>Requeue = True, RequeueAfter = 0\<rparr>, run_error = None,
          run_conditions = []\<rparr>
   \<and> map (\<lambda>stored. om_finalizers (cs_meta stored))
        (certificateSets (snd (Reconcile (''ns'', ''x'') unmarked_cluster)))
       = [[''certificateset.in-cloud.io/cleanup'']]"
proof -
  have h1: "getCertificateSet (''ns'', ''x'') unmarked_cluster
              = (Inr unmarked_set, snd (getCertificateSet (''ns'', ''x'') unmarked_cluster))"
    by (simp add: model_defs example_defs)
  have h2: "IsZero (om_deletionTimestamp (cs_meta unmarked_set))"
    by (simp add: model_defs example_defs)
  have h3: "\<not> ContainsFinalizer unmarked_set finalizerName"
    by (simp add: model_defs example_defs)
  show ?thesis
    using finalizer_attached_first [OF h1 h2 h3] h1 h2 h3
    by (simp add: model_defs example_defs)
qed

text \<open>
  The claim as stated fails when the update is refused: the run returns the error and
  asks for no requeue, and the finalizer is not attached.
\<close>

theorem finalizer_update_failure:
  "fst (getCertificateSet (''ns'', ''x'') failing_update_cluster) = Inr unmarked_set
   \<and> IsZero (om_deletionTimestamp (cs_meta unmarked_set))
   \<and> \<not> ContainsFinalizer unmarked_set finalizerName
   \<and> fst (Reconcile (''ns'', ''x'') failing_update_cluster)
       = \<lparr>run_result = \<lparr>Requeue = False, RequeueAfter = 0\<rparr>,
          run_error = Some (Error Other ''connection refused''), run_conditions = []\<rparr>
   \<and> certificateSets (snd (Reconcile (''ns'', ''x'') failing_update_cluster)) = [unmarked_set]"
  by (simp add: model_defs example_defs)

subsection \<open>Deletion\<close>



subsection \<open>Waiting for the CA secret\<close>

text \<open>
  C3 (amended). When the CA phase succeeds and the CA secret is not ready, the run
  returns no error and asks for a requeue after five seconds; it sets no condition, the
  stored CertificateSet is unchanged and no status write is sent.
\<close>

theorem ca_secret_wait:
  assumes "getCertificateSet req w = (Inr cs, w1)"
    and "IsZero (om_deletionTimestamp (cs_meta cs))"
    and "ContainsFinalizer cs finalizerName"
    and "reconcileCACertificates cs w1 = (None, w2)"
    and "isSecretReady (om_namespace (cs_meta cs), CAName cs) w2 = ((False, None), w3)"
  shows "Reconcile req w
           = (\<lparr>run_result = \<lparr>Requeue = False, RequeueAfter = 5 * Second\<rparr>, run_error = None,
               run_conditions = []\<rparr>, w3)
     \<and> certificateSets w3 = certificateSets w
     \<and> status_writes w3 = status_writes w"
proof -
  have "certificateSets w1 = certificateSets w" "status_writes w1 = status_writes w"
    using getCertificateSet_frame [of req w] assms(1) by simp_all
  moreover have "certificateSets w2 = certificateSets w1" "status_writes w2 = status_writes w1"
    using reconcileCACertificates_frame [of cs w1] assms(4) by simp_all
  moreover have "certificateSets w3 = certificateSets w2" "status_writes w3 = status_writes w2"
    using isSecretReady_frame [of "(om_namespace (cs_meta cs), CAName cs)" w2] assms(5) by simp_all
  ultimately show ?thesis
    using assms by (simp add: Reconcile_def Reconcile_step1_def defaultRequeueAfter_def)
qed

theorem ca_secret_wait_witness:
  "fst (getCertificateSet (''ns'', ''x'') fresh_cluster) = Inr example_set
   \<and> fst (reconcileCACertificates example_set (snd (getCertificateSet (''ns'', ''x'') fresh_cluster)))
       = None
   \<and> fst (Reconcile (''ns'', ''x'') fresh_cluster)
       = \<lparr>run_result = \<lparr>Requeue = False, RequeueAfter = 5000000000\<rparr>, run_error = None,
          run_conditions = []\<rparr>
   \<and> status_writes (snd (Reconcile (''ns'', ''x'') fresh_cluster)) = []"
proof -
  let ?w1 = "snd (getCertificateSet (''ns'', ''x'') fresh_cluster)"
  let ?w2 = "snd (reconcileCACertificates example_set ?w1)"
  let ?w3 = "snd (isSecretReady (om_namespace (cs_meta example_set), CAName example_set) ?w2)"
  have h1: "getCertificateSet (''ns'', ''x'') fresh_cluster = (Inr example_set, ?w1)"
    by (simp add: model_defs example_defs)
  have h2: "IsZero (om_deletionTimestamp (cs_meta example_set))"
    by (simp add: model_defs example_defs)
  have h3: "ContainsFinalizer example_set finalizerName"
    by (simp add: model_defs example_defs)
  have h4: "reconcileCACertificates example_set ?w1 = (None, ?w2)"
    by (simp add: model_defs example_defs)
  have h5: "isSecretReady (om_namespace (cs_meta example_set), CAName example_set) ?w2
              = ((False, None), ?w3)"
    by (simp add: model_defs example_defs)
  have f1: "fst (getCertificateSet (''ns'', ''x'') fresh_cluster) = Inr example_set"
    using h1 by (metis fst_conv)
  have f4: "fst (reconcileCACertificates example_set ?w1) = None"
    using h4 by (metis fst_conv)
  show ?thesis
    using ca_secret_wait [OF h1 h2 h3 h4 h5] f1 f4
    by (simp add: fresh_cluster_def status_writes_def Second_def)
qed

text \<open>
  The claim as stated fails on a fresh cluster: the CA certificate is created, its secret
  is absent, and the run sets no Progressing condition.
\<close>

theorem ca_secret_wait_sets_no_condition:
  "fst (Reconcile (''ns'', ''x'') fresh_cluster)
     = \<lparr>run_result = \<lparr>Requeue = False, RequeueAfter = 5000000000\<rparr>, run_error = None,
        run_conditions = []\<rparr>
   \<and> calls (snd (Reconcile (''ns'', ''x'') fresh_cluster))
     = [Call Get KCertificateSet (''ns'', ''x''), Call Get KCertificate (''ns'', ''x-ca''),
        Call Create KCertificate (''ns'', ''x-ca''), Call Get KSecret (''ns'', ''x-ca'')]
   \<and> secrets fresh_cluster = []
   \<and> map cs_conditions (certificateSets (snd (Reconcile (''ns'', ''x'') fresh_cluster))) = [[]]"
  by (simp add: model_defs example_defs)

subsection \<open>Create or update\<close>

text \<open>
  C1 (amended). Certificates are created or updated. When the fetched CertificateSet is
  not being deleted, carries the finalizer, and its CA phase succeeds, then after the
  run the stored CA Certificate has the spec, the labels and the annotations built from
  the parent as it is now; in particular its issuer reference is the one derived from
  the parent's current \<open>issuerRef\<close>. Only its status conditions are those stored before
  the run (none for a certificate the run creates).
\<close>

theorem ca_certificate_follows_parent:
  assumes "getCertificateSet req w = (Inr cs, w1)"
    and "IsZero (om_deletionTimestamp (cs_meta cs))"
    and "ContainsFinalizer cs finalizerName"
    and "reconcileCACertificates cs w1 = (None, w2)"
  shows "\<exists>c. certificateAt (snd (Reconcile req w)) (om_namespace (cs_meta cs), CAName cs) = Some c
           \<and> sp_issuerRef (cert_spec c) = issuerObjectReference (issuerRef (cs_spec cs))
           \<and> cert_spec c = cert_spec (buildCACertificate cs)
           \<and> om_labels (cert_meta c) = om_labels (cs_meta cs)
           \<and> om_annotations (cert_meta c)
               = copyAnnotationsForChildResource (om_annotations (cs_meta cs))
           \<and> cert_conditions c
               = (case certificateAt w (om_namespace (cs_meta cs), CAName cs) of
                    None \<Rightarrow> [] | Some old \<Rightarrow> cert_conditions old)"
proof -
  let ?key = "(om_namespace (cs_meta cs), CAName cs)"
  have w1: "certificates w1 = certificates w"
    using getCertificateSet_frame [of req w] assms(1) by simp
  have ok: "fst (reconcileCACertificates cs w1) = None"
    and w2: "w2 = snd (reconcileCACertificates cs w1)"
    using assms(4) by simp_all
  have "certificateAt (snd (Reconcile req w)) ?key = certificateAt w2 ?key"
    using assms
    by (simp add: Reconcile_def Reconcile_step1_def case_prod_beta Let_def Reconcile_step3_ca
        split: option.splits)
  with reconcileCACertificates_ca [OF ok] show ?thesis
    unfolding w2 [symmetric] w1
    by (auto simp: buildCACertificate_def buildCACertificateWithName_def buildObjectMeta_def)
qed

theorem ca_certificate_follows_parent_witness:
  "fst (getCertificateSet (''ns'', ''x'') stale_cluster) = Inr example_set
   \<and> fst (reconcileCACertificates example_set (snd (getCertificateSet (''ns'', ''x'') stale_cluster)))
       = None
   \<and> map (\<lambda>c. (ref_name (sp_issuerRef (cert_spec c)), cert_conditions c))
        (certificates (snd (Reconcile (''ns'', ''x'') stale_cluster)))
       = [(''new'', [\<lparr>cm_type = ''Ready'', cm_status = ConditionTrue\<rparr>])]"
proof -
  let ?w1 = "snd (getCertificateSet (''ns'', ''x'') stale_cluster)"
  let ?w2 = "snd (reconcileCACertificates example_set ?w1)"
  have h1: "getCertificateSet (''ns'', ''x'') stale_cluster = (Inr example_set, ?w1)"
    by (simp add: model_defs example_defs)
  have h2: "IsZero (om_deletionTimestamp (cs_meta example_set))"
    by (simp add: model_defs example_defs)
  have h3: "ContainsFinalizer example_set finalizerName"
    by (simp add: model_defs example_defs)
  have h4: "reconcileCACertificates example_set ?w1 = (None, ?w2)"
    by (simp add: model_defs example_defs)
  have f1: "fst (getCertificateSet (''ns'', ''x'') stale_cluster) = Inr example_set"
    using h1 by (metis fst_conv)
  have f4: "fst (reconcileCACertificates example_set ?w1) = None"
    using h4 by (metis fst_conv)
  have ev: "map (\<lambda>c. (ref_name (sp_issuerRef (cert_spec c)), cert_conditions c))
        (certificates (snd (Reconcile (''ns'', ''x'') stale_cluster)))
       = [(''new'', [\<lparr>cm_type = ''Ready'', cm_status = ConditionTrue\<rparr>])]"
    by (simp add: model_defs example_defs)
  show ?thesis
    using ca_certificate_follows_parent [OF h1 h2 h3 h4] f1 f4 ev by simp
qed

text \<open>
  The claim as stated fails: with a CA certificate stored for the issuer \<open>old\<close> and a
  parent that now names the issuer \<open>new\<close>, the run updates the stored certificate, whose
  issuer reference becomes \<open>new\<close>.
\<close>

theorem existing_ca_certificate_is_updated:
  "map_option (ref_name \<circ> sp_issuerRef \<circ> cert_spec)
       (certificateAt stale_cluster (''ns'', ''x-ca'')) = Some ''old''
   \<and> certificateSets stale_cluster = [example_set]
   \<and> ir_name (issuerRef (cs_spec example_set)) = ''new''
   \<and> map_option (ref_name \<circ> sp_issuerRef \<circ> cert_spec)
       (certificateAt (snd (Reconcile (''ns'', ''x'') stale_cluster)) (''ns'', ''x-ca''))
       = Some ''new''
   \<and> calls (snd (Reconcile (''ns'', ''x'') stale_cluster))
       = [Call Get KCertificateSet (''ns'', ''x''), Call Get KCertificate (''ns'', ''x-ca''),
          Call Update KCertificate (''ns'', ''x-ca''), Call Get KSecret (''ns'', ''x-ca''),
          Call Get KSecret (''beget-argocd'', ''x-argocd-cluster''),
          Call Get KCertificate (''ns'', ''x-ca''),
          Call PatchStatus KCertificateSet (''ns'', ''x'')]"
  unfolding stale_run by (simp add: model_defs example_defs)

subsection \<open>The missing ArgoCD namespace\<close>

lemma setCondition_records: "stamped (snd (setCondition now cs t s r m)) t s r m"
  using FindStatusCondition_Set [of now "cs_conditions cs"
      "\<lparr>c_type = t, c_status = s, c_observedGeneration = om_generation (cs_meta cs),
        c_lastTransitionTime = 0, c_reason = r, c_message = m\<rparr>"]
  by (auto simp: setCondition_def split: option.splits)

lemma degraded_exit_stored:
  assumes "certificateSetAt w (meta_key (cs_meta cs)) = Some cs"
  shows "snd (degraded_exit reason e cs cs w)
           = snd (patchStatus (snd (setCondition (clock w) cs ConditionTypeDegraded ConditionTrue
                                     reason (Error_text e))) cs w)
     \<and> (case next_fault w of
          None \<Rightarrow>
            (\<exists>stored. certificateSetAt (snd (degraded_exit reason e cs cs w)) (meta_key (cs_meta cs))
                         = Some stored
               \<and> stamped stored ConditionTypeDegraded ConditionTrue reason (Error_text e))
        | Some patchErr \<Rightarrow>
            certificateSets (snd (degraded_exit reason e cs cs w)) = certificateSets w)"
proof -
  let ?cs' = "snd (setCondition (clock w) cs ConditionTypeDegraded ConditionTrue reason (Error_text e))"
  have d: "snd (degraded_exit reason e cs cs w) = snd (patchStatus ?cs' cs w)"
    by (simp add: degraded_exit_def traced_setCondition_def case_prod_beta Let_def)
  have m: "cs_meta ?cs' = cs_meta cs"
    by (simp add: setCondition_def split: option.splits)
  have st: "stamped ?cs' ConditionTypeDegraded ConditionTrue reason (Error_text e)"
    by (rule setCondition_records)
  let ?stored = "cs\<lparr>cs_conditions := cs_conditions ?cs'\<rparr>"
  have "stamped ?stored ConditionTypeDegraded ConditionTrue reason (Error_text e)"
    using st m by simp
  moreover have "next_fault w = None \<Longrightarrow>
      certificateSetAt (snd (patchStatus ?cs' cs w)) (meta_key (cs_meta cs)) = Some ?stored"
    using assms m by (auto simp: patchStatus_def request_def lookup_replace)
  moreover have "next_fault w = Some pe \<Longrightarrow>
      certificateSets (snd (patchStatus ?cs' cs w)) = certificateSets w" for pe
    by (simp add: patchStatus_def request_def)
  ultimately show ?thesis
    unfolding d by (auto split: option.splits)
qed

text \<open>
  C5. Let the run reach the derived-secrets phase: the parent is fetched, is not being
  deleted and carries the finalizer, both certificate phases succeed, both secrets are
  ready and the super-admin data is read. If \<open>argocdCluster\<close> is true and the namespace
  \<open>beget-argocd\<close> does not exist, then \<open>reconcileDerivedSecrets\<close> fails with an error
  \<open>e\<close>, and the Degraded condition is set true: the object \<open>setCondition\<close> returns for
  type Degraded, status True, reason \<open>DerivedSecretsFailed\<close> and the text of \<open>e\<close> carries
  a Degraded condition with exactly that status, reason and message and the parent's
  generation; that object is the one whose status the run patches, and it is the only
  condition the run sets. When no fault hits the patch, the CertificateSet stored after
  the run carries that Degraded condition; when a fault hits it, the stored
  CertificateSets are as before the run. The run sends one status patch and returns \<open>e\<close>
  with no requeue request, and the secret \<open><name>-argocd-cluster\<close> in \<open>beget-argocd\<close> is
  as it was before the run: none is created.
\<close>

theorem missing_argocd_namespace_fails:
  assumes "getCertificateSet req w = (Inr cs, w1)"
    and "IsZero (om_deletionTimestamp (cs_meta cs))"
    and "ContainsFinalizer cs finalizerName"
    and "reconcileCACertificates cs w1 = (None, w2)"
    and "isSecretReady (om_namespace (cs_meta cs), CAName cs) w2 = ((True, None), w3)"
    and "reconcileClientCertificates cs w3 = (None, w4)"
    and "isSecretReady (om_namespace (cs_meta cs), SuperAdminName cs) w4 = ((True, None), w5)"
    and "getCertificateData (om_namespace (cs_meta cs), SuperAdminName cs) w5 = (Inr certData, w6)"
    and "argocdCluster (cs_spec cs)"
    and "ArgoCDNamespace \<notin> namespaces w6"
  shows "\<exists>e w7 changed degraded.
           reconcileDerivedSecrets cs certData w6 = (Some e, w7)
           \<and> setCondition (clock w7) cs ConditionTypeDegraded ConditionTrue
                 ''DerivedSecretsFailed'' (Error_text e) = (changed, degraded)
           \<and> stamped degraded ConditionTypeDegraded ConditionTrue
                 ''DerivedSecretsFailed'' (Error_text e)
           \<and> fst (Reconcile req w)
               = \<lparr>run_result = no_requeue, run_error = Some e,
                  run_conditions = [SetCondition ConditionTypeDegraded ConditionTrue
                    ''DerivedSecretsFailed'' (Error_text e) changed]\<rparr>
           \<and> snd (Reconcile req w) = snd (patchStatus degraded cs w7)
           \<and> (case next_fault w7 of
                None \<Rightarrow>
                  (\<exists>stored. certificateSetAt (snd (Reconcile req w)) req = Some stored
                     \<and> stamped stored ConditionTypeDegraded ConditionTrue
                           ''DerivedSecretsFailed'' (Error_text e))
              | Some patchErr \<Rightarrow>
                  certificateSets (snd (Reconcile req w)) = certificateSets w)
           \<and> secretAt (snd (Reconcile req w)) (ArgoCDNamespace, ArgoCDClusterName cs)
               = secretAt w (ArgoCDNamespace, ArgoCDClusterName cs)
           \<and> status_writes (snd (Reconcile req w))
               = status_writes w @ [Call PatchStatus KCertificateSet req]"
proof -
  let ?key = "(ArgoCDNamespace, ArgoCDClusterName cs)"
  let ?d = "reconcileDerivedSecrets cs certData w6"
  from assms(1) have k: "meta_key (cs_meta cs) = req" and at: "certificateSetAt w req = Some cs"
    by (auto dest: getCertificateSet_Inr)
  have s1: "secrets w1 = secrets w" "status_writes w1 = status_writes w"
    "certificateSets w1 = certificateSets w"
    using getCertificateSet_frame [of req w] assms(1) by simp_all
  have s2: "secrets w2 = secrets w1" "status_writes w2 = status_writes w1"
    "certificateSets w2 = certificateSets w1"
    using reconcileCACertificates_frame [of cs w1] assms(4) by simp_all
  have s3: "secrets w3 = secrets w2" "status_writes w3 = status_writes w2"
    "certificateSets w3 = certificateSets w2"
    using isSecretReady_frame [of "(om_namespace (cs_meta cs), CAName cs)" w2] assms(5) by simp_all
  have s4: "secrets w4 = secrets w3" "status_writes w4 = status_writes w3"
    "certificateSets w4 = certificateSets w3"
    using reconcileClientCertificates_frame [of cs w3] assms(6) by simp_all
  have s5: "secrets w5 = secrets w4" "status_writes w5 = status_writes w4"
    "certificateSets w5 = certificateSets w4"
    using isSecretReady_frame [of "(om_namespace (cs_meta cs), SuperAdminName cs)" w4] assms(7)
    by simp_all
  have s6: "secrets w6 = secrets w5" "status_writes w6 = status_writes w5"
    "certificateSets w6 = certificateSets w5"
    using getCertificateData_frame [of "(om_namespace (cs_meta cs), SuperAdminName cs)" w5] assms(8)
    by simp_all
  from reconcileDerivedSecrets_no_namespace [OF assms(9,10), of certData]
  obtain e where e: "fst ?d = Some e" and keep: "secretAt (snd ?d) ?key = secretAt w6 ?key"
    by auto
  let ?w7 = "snd ?d"
  let ?g = "setCondition (clock ?w7) cs ConditionTypeDegraded ConditionTrue
              ''DerivedSecretsFailed'' (Error_text e)"
  have d: "?d = (Some e, ?w7)"
    using e by (metis prod.collapse)
  have R: "Reconcile req w = degraded_exit ''DerivedSecretsFailed'' e cs cs ?w7"
    using assms e
    by (simp add: Reconcile_def Reconcile_step1_def Reconcile_step3_def case_prod_beta Let_def)
  have at7: "certificateSetAt ?w7 (meta_key (cs_meta cs)) = Some cs"
    using at by (simp add: k s1 s2 s3 s4 s5 s6)
  note st = degraded_exit_stored [OF at7, of "''DerivedSecretsFailed''" e]
  note res = degraded_exit_result [of "''DerivedSecretsFailed''" e cs cs ?w7]
  have c7: "certificateSets ?w7 = certificateSets w"
    by (simp add: s1 s2 s3 s4 s5 s6)
  have "reconcileDerivedSecrets cs certData w6 = (Some e, ?w7)
           \<and> setCondition (clock ?w7) cs ConditionTypeDegraded ConditionTrue
                 ''DerivedSecretsFailed'' (Error_text e) = (fst ?g, snd ?g)
           \<and> stamped (snd ?g) ConditionTypeDegraded ConditionTrue
                 ''DerivedSecretsFailed'' (Error_text e)
           \<and> fst (Reconcile req w)
               = \<lparr>run_result = no_requeue, run_error = Some e,
                  run_conditions = [SetCondition ConditionTypeDegraded ConditionTrue
                    ''DerivedSecretsFailed'' (Error_text e) (fst ?g)]\<rparr>
           \<and> snd (Reconcile req w) = snd (patchStatus (snd ?g) cs ?w7)
           \<and> (case next_fault ?w7 of
                None \<Rightarrow>
                  (\<exists>stored. certificateSetAt (snd (Reconcile req w)) req = Some stored
                     \<and> stamped stored ConditionTypeDegraded ConditionTrue
                           ''DerivedSecretsFailed'' (Error_text e))
              | Some patchErr \<Rightarrow>
                  certificateSets (snd (Reconcile req w)) = certificateSets w)
           \<and> secretAt (snd (Reconcile req w)) ?key = secretAt w ?key
           \<and> status_writes (snd (Reconcile req w))
               = status_writes w @ [Call PatchStatus KCertificateSet req]"
    using d keep st res setCondition_records [of "clock ?w7" cs ConditionTypeDegraded ConditionTrue
        "''DerivedSecretsFailed''" "Error_text e"]
    unfolding R k c7 by (simp add: s1 s2 s3 s4 s5 s6)
  then show ?thesis
    by (intro exI [of _ e] exI [of _ ?w7] exI [of _ "fst ?g"] exI [of _ "snd ?g"])
qed

theorem missing_argocd_namespace_fails_witness:
  "fst (getCertificateSet (''ns'', ''x'') argocd_cluster) = Inr argocd_set
   \<and> argocdCluster (cs_spec argocd_set)
   \<and> ''beget-argocd'' \<notin> namespaces argocd_cluster
   \<and> faults argocd_cluster = []
   \<and> map cs_conditions (certificateSets argocd_cluster) = [[]]
   \<and> fst (Reconcile (''ns'', ''x'') argocd_cluster)
       = \<lparr>run_result = \<lparr>Requeue = False, RequeueAfter = 0\<rparr>,
          run_error = Some (Error Other
            (''ArgoCD namespace '' @ quoted ''beget-argocd'' @ '' does not exist'')),
          run_conditions = [SetCondition ''Degraded'' ConditionTrue ''DerivedSecretsFailed''
            (''ArgoCD namespace '' @ quoted ''beget-argocd'' @ '' does not exist'') True]\<rparr>
   \<and> map cs_conditions (certificateSets (snd (Reconcile (''ns'', ''x'') argocd_cluster)))
       = [[\<lparr>c_type = ''Degraded'', c_status = ConditionTrue, c_observedGeneration = 1,
            c_lastTransitionTime = 7, c_reason = ''DerivedSecretsFailed'',
            c_message = ''ArgoCD namespace '' @ quoted ''beget-argocd'' @ '' does not exist''\<rparr>]]
   \<and> secretAt (snd (Reconcile (''ns'', ''x'') argocd_cluster)) (''beget-argocd'', ''x-argocd-cluster'')
       = None
   \<and> status_writes (snd (Reconcile (''ns'', ''x'') argocd_cluster))
       = [Call PatchStatus KCertificateSet (''ns'', ''x'')]"
proof -
  let ?ns = "om_namespace (cs_meta argocd_set)"
  let ?w1 = "snd (getCertificateSet (''ns'', ''x'') argocd_cluster)"
  let ?w2 = "snd (reconcileCACertificates argocd_set ?w1)"
  let ?w3 = "snd (isSecretReady (?ns, CAName argocd_set) ?w2)"
  let ?w4 = "snd (reconcileClientCertificates argocd_set ?w3)"
  let ?w5 = "snd (isSecretReady (?ns, SuperAdminName argocd_set) ?w4)"
  let ?g = "getCertificateData (?ns, SuperAdminName argocd_set) ?w5"
  let ?cd = "\<lparr>CACert = ''YQ=='', TLSCert = ''Yw=='', TLSKey = ''aw==''\<rparr>"
  have h1: "getCertificateSet (''ns'', ''x'') argocd_cluster = (Inr argocd_set, ?w1)"
    by (simp add: model_defs example_defs)
  have h2: "IsZero (om_deletionTimestamp (cs_meta argocd_set))"
    by (simp add: model_defs example_defs)
  have h3: "ContainsFinalizer argocd_set finalizerName"
    by (simp add: model_defs example_defs)
  have h4: "reconcileCACertificates argocd_set ?w1 = (None, ?w2)"
    by (simp add: model_defs example_defs)
  have h5: "isSecretReady (?ns, CAName argocd_set) ?w2 = ((True, None), ?w3)"
    by (simp add: model_defs example_defs)
  have h6: "reconcileClientCertificates argocd_set ?w3 = (None, ?w4)"
    by (simp add: model_defs example_defs Let_def)
  have h7: "isSecretReady (?ns, SuperAdminName argocd_set) ?w4 = ((True, None), ?w5)"
    by (simp add: model_defs example_defs Let_def)
  have h8: "?g = (Inr ?cd, snd ?g)"
    by (simp add: model_defs example_defs Let_def base64_char_def base64_alphabet_def)
  have h9: "argocdCluster (cs_spec argocd_set)"
    by (simp add: example_defs)
  have h10: "ArgoCDNamespace \<notin> namespaces (snd ?g)"
    by (simp add: example_defs ArgoCDNamespace_def)
  have f1: "fst (getCertificateSet (''ns'', ''x'') argocd_cluster) = Inr argocd_set"
    using h1 by (metis fst_conv)
  have ev: "fst (Reconcile (''ns'', ''x'') argocd_cluster)
       = \<lparr>run_result = \<lparr>Requeue = False, RequeueAfter = 0\<rparr>,
          run_error = Some (Error Other
            (''ArgoCD namespace '' @ quoted ''beget-argocd'' @ '' does not exist'')),
          run_conditions = [SetCondition ''Degraded'' ConditionTrue ''DerivedSecretsFailed''
            (''ArgoCD namespace '' @ quoted ''beget-argocd'' @ '' does not exist'') True]\<rparr>"
    by (simp add: model_defs example_defs Let_def base64_char_def base64_alphabet_def)
  have stored: "map cs_conditions (certificateSets (snd (Reconcile (''ns'', ''x'') argocd_cluster)))
       = [[\<lparr>c_type = ''Degraded'', c_status = ConditionTrue, c_observedGeneration = 1,
            c_lastTransitionTime = 7, c_reason = ''DerivedSecretsFailed'',
            c_message = ''ArgoCD namespace '' @ quoted ''beget-argocd'' @ '' does not exist''\<rparr>]]"
    by (simp add: model_defs example_defs Let_def base64_char_def base64_alphabet_def)
  have ns: "''beget-argocd'' \<notin> namespaces argocd_cluster"
    "secretAt argocd_cluster (''beget-argocd'', ''x-argocd-cluster'') = None"
    "status_writes argocd_cluster = []"
    "map cs_conditions (certificateSets argocd_cluster) = [[]]"
    "faults argocd_cluster = []"
    by (simp_all add: example_defs status_writes_def lookup_def meta_key_def empty_meta_def)
  have k: "(ArgoCDNamespace, ArgoCDClusterName argocd_set) = (''beget-argocd'', ''x-argocd-cluster'')"
    by (simp add: model_defs example_defs)
  from missing_argocd_namespace_fails [OF h1 h2 h3 h4 h5 h6 h7 h8 h9 h10]
  have "secretAt (snd (Reconcile (''ns'', ''x'') argocd_cluster)) (''beget-argocd'', ''x-argocd-cluster'')
          = None
      \<and> status_writes (snd (Reconcile (''ns'', ''x'') argocd_cluster))
          = [Call PatchStatus KCertificateSet (''ns'', ''x'')]"
    unfolding k using ns by auto
  then show ?thesis
    using f1 h9 ev stored ns by simp
qed

subsection \<open>Ready only when every resource is ready\<close>





subsection \<open>Running again on a converged cluster\<close>

text \<open>
  C2 (amended). When the stored CertificateSet already carries the three terminal
  conditions, stamped with its generation, a run that reaches the last step makes three
  \<open>setCondition\<close> calls that each return false, leaves the stored CertificateSets as
  they are, and sends exactly one status patch, whose difference from the snapshot is
  empty.
\<close>

theorem converged_rerun:
  assumes "certificateSetAt w req = Some cs"
    and "stamped cs ConditionTypeReady ConditionTrue ''AllResourcesReady''
           ''All certificate resources created and ready''"
    and "stamped cs ConditionTypeDegraded ConditionFalse ''Healthy'' ''No errors''"
    and "stamped cs ConditionTypeProgressing ConditionFalse ''Complete'' ''Reconciliation complete''"
    and "sets_ready (fst (Reconcile req w))"
  shows "run_conditions (fst (Reconcile req w))
           = [SetCondition ConditionTypeReady ConditionTrue ''AllResourcesReady''
                ''All certificate resources created and ready'' False,
              SetCondition ConditionTypeDegraded ConditionFalse ''Healthy'' ''No errors'' False,
              SetCondition ConditionTypeProgressing ConditionFalse ''Complete''
                ''Reconciliation complete'' False]
     \<and> certificateSets (snd (Reconcile req w)) = certificateSets w
     \<and> status_writes (snd (Reconcile req w))
         = status_writes w @ [Call PatchStatus KCertificateSet req]"
proof -
  from Reconcile_reaches [OF assms(5)] assms(1) obtain w5
    where k: "meta_key (cs_meta cs) = req"
      and f: "certificateSets w5 = certificateSets w" "status_writes w5 = status_writes w"
      and R: "Reconcile req w = Reconcile_step7 cs cs (snd (checkAllResourcesReady cs w5))"
    by auto
  let ?w6 = "snd (checkAllResourcesReady cs w5)"
  have t: "traced_setCondition now t s r m (cs, l) = (cs, l @ [SetCondition t s r m False])"
    if "stamped cs t s r m" for now t s r m l
    using setCondition_stamped [OF that] by (simp add: traced_setCondition_def)
  have "Reconcile_step7 cs cs ?w6
          = (\<lparr>run_result = no_requeue, run_error = fst (patchStatus cs cs ?w6),
              run_conditions =
                [SetCondition ConditionTypeReady ConditionTrue ''AllResourcesReady''
                   ''All certificate resources created and ready'' False,
                 SetCondition ConditionTypeDegraded ConditionFalse ''Healthy'' ''No errors'' False,
                 SetCondition ConditionTypeProgressing ConditionFalse ''Complete''
                   ''Reconciliation complete'' False]\<rparr>,
             snd (patchStatus cs cs ?w6))"
    by (simp add: Reconcile_step7_def Let_def t [OF assms(2)] t [OF assms(3)] t [OF assms(4)]
        case_prod_beta split: option.splits)
  then show ?thesis
    unfolding R by (simp add: patchStatus_empty f k)
qed

theorem converged_rerun_witness:
  "certificateSetAt converged_cluster (''ns'', ''x'') = Some converged_set
   \<and> status_writes converged_cluster = []
   \<and> run_conditions (fst (Reconcile (''ns'', ''x'') converged_cluster))
       = [SetCondition ''Ready'' ConditionTrue ''AllResourcesReady''
            ''All certificate resources created and ready'' False,
          SetCondition ''Degraded'' ConditionFalse ''Healthy'' ''No errors'' False,
          SetCondition ''Progressing'' ConditionFalse ''Complete''
            ''Reconciliation complete'' False]
   \<and> certificateSets (snd (Reconcile (''ns'', ''x'') converged_cluster)) = [converged_set]
   \<and> status_writes (snd (Reconcile (''ns'', ''x'') converged_cluster))
       = [Call PatchStatus KCertificateSet (''ns'', ''x'')]"
proof -
  have cs: "certificateSets converged_cluster = [converged_set]"
    and sw: "status_writes converged_cluster = []"
    by (simp_all add: example_defs status_writes_def)
  have h1: "certificateSetAt converged_cluster (''ns'', ''x'') = Some converged_set"
    by (simp add: model_defs example_defs)
  have h2: "stamped converged_set ConditionTypeReady ConditionTrue ''AllResourcesReady''
           ''All certificate resources created and ready''"
    by (simp add: model_defs example_defs)
  have h3: "stamped converged_set ConditionTypeDegraded ConditionFalse ''Healthy'' ''No errors''"
    by (simp add: model_defs example_defs)
  have h4: "stamped converged_set ConditionTypeProgressing ConditionFalse ''Complete''
              ''Reconciliation complete''"
    by (simp add: model_defs example_defs)
  have h5: "sets_ready (fst (Reconcile (''ns'', ''x'') converged_cluster))"
    unfolding converged_run by (auto simp: ConditionTypeReady_def)
  show ?thesis
    using converged_rerun [OF h1 h2 h3 h4 h5] h1 cs sw
    by (simp add: ConditionTypeReady_def ConditionTypeDegraded_def ConditionTypeProgressing_def)
qed

text \<open>
  The claim as stated fails: on the cluster that a first run leaves, a second run with
  nothing changed makes the three calls, each returning false, and sends a status patch.
\<close>

theorem converged_rerun_patches_status:
  "(snd (Reconcile (''ns'', ''x'') stale_cluster))\<lparr>calls := []\<rparr> = converged_cluster
   \<and> fst (Reconcile (''ns'', ''x'') converged_cluster)
       = \<lparr>run_result = \<lparr>Requeue = False, RequeueAfter = 0\<rparr>, run_error = None,
          run_conditions =
            [SetCondition ''Ready'' ConditionTrue ''AllResourcesReady''
               ''All certificate resources created and ready'' False,
             SetCondition ''Degraded'' ConditionFalse ''Healthy'' ''No errors'' False,
             SetCondition ''Progressing'' ConditionFalse ''Complete''
               ''Reconciliation complete'' False]\<rparr>
   \<and> calls (snd (Reconcile (''ns'', ''x'') converged_cluster))
       = [Call Get KCertificateSet (''ns'', ''x''), Call Get KCertificate (''ns'', ''x-ca''),
          Call Get KSecret (''ns'', ''x-ca''),
          Call Get KSecret (''beget-argocd'', ''x-argocd-cluster''),
          Call Get KCertificate (''ns'', ''x-ca''),
          Call PatchStatus KCertificateSet (''ns'', ''x'')]
   \<and> certificateSets (snd (Reconcile (''ns'', ''x'') converged_cluster))
       = certificateSets converged_cluster"
  unfolding stale_run converged_run by (simp add: example_defs)

end
